theory Spec2Isabelle
  imports Complex_Main "HOL-Library.Product_Lexorder" "HOL-Library.Sublist" "HOL-Library.Multiset"
begin

section \<open>Data model\<close>

text \<open>
  The tables of \<^verbatim>\<open>models\<close> that \<^verbatim>\<open>routes/batches.py\<close> reads and writes. A row is a
  record; a table is the list of its rows, in the order the database returns them.
  Row identities, dates and timestamps are Python integers; a nullable column is an
  \<open>option\<close>. \<open>Batch\<close> and \<open>User\<close> carry the same identity, \<open>is_active\<close> flag and
  archive columns, so both extend one record \<open>entity\<close>. The column \<^verbatim>\<open>id\<close> is
  \<open>row_id\<close> here (\<open>exam_id\<close> for an exam); \<^verbatim>\<open>MonthlyExam.batch_id\<close> is
  \<open>exam_batch_id\<close> and \<^verbatim>\<open>MonthlyRanking.user_id\<close> is \<open>ranking_user_id\<close>. Of the
  user columns only those the handlers below compute with or copy unchanged into a
  reply are kept; the remaining contact columns, the creation time and the derived
  full name and student id are copied into replies and nothing else.
\<close>

datatype UserRole = STUDENT | TEACHER | SUPER_USER

type_synonym timestamp = int
type_synonym date = int
type_synonym decimal = rat

record entity =
  row_id :: int
  is_active :: bool
  is_archived :: bool
  archived_at :: "timestamp option"
  archived_by :: "int option"
  archive_reason :: "string option"

record user = entity +
  phoneNumber :: string
  first_name :: string
  last_name :: string
  email :: "string option"
  role :: UserRole

record batch = entity +
  name :: string
  description :: "string option"
  subject :: string
  start_date :: date
  end_date :: "date option"
  fee_amount :: decimal
  max_students :: "int option"
  status :: string
  updated_at :: "timestamp option"

record monthly_exam =
  exam_id :: int
  exam_batch_id :: int
  year :: int
  month :: int

record monthly_ranking =
  monthly_exam_id :: int
  ranking_user_id :: int
  position :: "int option"
  is_final :: bool

text \<open>\<open>user_batches\<close> is the association table: a row \<open>(user, batch)\<close> enrols a user.\<close>

record database =
  batches :: "batch list"
  users :: "user list"
  user_batches :: "(int \<times> int) list"
  monthly_exams :: "monthly_exam list"
  monthly_rankings :: "monthly_ranking list"

section \<open>Responses\<close>

text \<open>
  \<^verbatim>\<open>error_response(message, status)\<close> and \<^verbatim>\<open>success_response(message, data, status)\<close>
  build the reply. The message texts are kept as constructors; the values a Python
  f-string interpolates are the constructor's arguments.
\<close>

datatype message =
    Batch_not_found
  | Request_data_is_required
  | Missing_required_fields "string list"
  | Class_must_be_one_of "string list"
  | Subject_must_be_one_of "string list"
  | Batch_with_this_name_already_exists
  | Invalid_format_Use_YYYY_MM_DD string
  | Fee_amount_cannot_be_negative
  | Invalid_fee_amount
  | End_date_must_be_after_start_date
  | Cannot_delete_batch_with_active_students nat
  | Student_ID_is_required
  | Student_not_found
  | Student_is_already_enrolled_in_this_batch
  | Student_is_not_enrolled_in_this_batch
  | Batch_is_already_archived
  | Batch_is_not_archived
  | Failed_to string
  | Batch_created_successfully
  | Batch_updated_successfully
  | Batch_deleted_permanently string
  | Batch_students_retrieved
  | Student_added_to_batch_successfully
  | Student_removed_from_batch_successfully
  | Batch_and_students_archived_successfully
  | Batch_restored_successfully

record student_data =
  sd_id :: int
  sd_phoneNumber :: string
  sd_phone :: string
  sd_first_name :: string
  sd_last_name :: string
  sd_email :: "string option"
  roll_number :: "int option"
  current_rank :: "int option"

datatype payload =
    No_data
  | Batch_data batch "string option"
  | Students_data "student_data list"
  | Archived_data int string nat "timestamp option" string
  | Restored_data int string nat

datatype response =
    error_response message nat
  | success_response message payload nat

section \<open>Queries\<close>

text \<open>\<^verbatim>\<open>Batch.query.get(batch_id)\<close>: the row with that primary key, if any.\<close>

definition get_batch :: "database \<Rightarrow> int \<Rightarrow> batch option" where
  "get_batch db batch_id = find (\<lambda>b. row_id b = batch_id) (batches db)"

text \<open>Writing a changed batch row back at commit: the row with its key is replaced.\<close>

fun put_batch :: "batch \<Rightarrow> batch list \<Rightarrow> batch list" where
  "put_batch b' [] = []"
| "put_batch b' (b # bs) = (if row_id b = row_id b' then b' # bs else b # put_batch b' bs)"

text \<open>
  \<open>enrolled\<close> is the test \<^verbatim>\<open>batch in student.batches\<close>. \<open>batch_students\<close> are the members
  of \<^verbatim>\<open>batch.students\<close> as rows of the users table, for the handlers that count them
  or change them in place. \<open>loaded_students\<close> is the list \<^verbatim>\<open>batch.students\<close> as the
  relationship's query loads it for a listing: the users joined to the association
  rows of the batch, in the order of those rows.
\<close>

definition enrolled :: "database \<Rightarrow> int \<Rightarrow> user \<Rightarrow> bool" where
  "enrolled db batch_id u = ((row_id u, batch_id) \<in> set (user_batches db))"

definition batch_students :: "database \<Rightarrow> int \<Rightarrow> user list" where
  "batch_students db batch_id = filter (enrolled db batch_id) (users db)"

definition loaded_students :: "database \<Rightarrow> int \<Rightarrow> user list" where
  "loaded_students db batch_id =
     concat (map (\<lambda>(user_id, b). filter (\<lambda>u. row_id u = user_id) (users db))
               (filter (\<lambda>(user_id, b). b = batch_id) (user_batches db)))"

section \<open>Archive and restore\<close>

text \<open>The f-string \<^verbatim>\<open>f"Archived with batch: {batch.name}"\<close>.\<close>

definition cascade_marker :: "string \<Rightarrow> string" where
  "cascade_marker nm = ''Archived with batch: '' @ nm"

text \<open>
  The loop of \<^verbatim>\<open>archive_batch\<close> over \<^verbatim>\<open>batch.students\<close>. The students are rows of
  the users table and are changed in place, so the loop walks the table and skips
  the rows that are not enrolled. \<open>utcnow k\<close> is the clock's \<open>k\<close>-th reading within
  the request (the batch takes reading 0); \<open>n\<close> is \<^verbatim>\<open>archived_students_count\<close>.
\<close>

fun archive_students ::
  "(nat \<Rightarrow> timestamp) \<Rightarrow> int \<Rightarrow> string \<Rightarrow> (user \<Rightarrow> bool) \<Rightarrow> user list \<Rightarrow> nat \<Rightarrow> user list \<times> nat"
where
  "archive_students utcnow cu nm member [] n = ([], n)"
| "archive_students utcnow cu nm member (student # rest) n =
     (if member student \<and> \<not> is_archived student \<and> role student = STUDENT then
        (let student' = student\<lparr>is_archived := True,
                                 archived_at := Some (utcnow (Suc n)),
                                 archived_by := Some cu,
                                 archive_reason := Some (cascade_marker nm)\<rparr>;
             (rest', m) = archive_students utcnow cu nm member rest (Suc n)
         in (student' # rest', m))
      else
        (let (rest', m) = archive_students utcnow cu nm member rest n
         in (student # rest', m)))"

text \<open>
  \<^verbatim>\<open>archive_batch\<close>. \<open>cu\<close> is \<^verbatim>\<open>current_user.id\<close>; \<open>reason\<close> is the request's
  \<^verbatim>\<open>reason\<close> string, \<open>None\<close> when the body or the key is absent. A handler returns the
  database as committed together with its reply; a reply sent before
  \<^verbatim>\<open>db.session.commit()\<close> leaves the database as it was.
\<close>

definition archive_batch ::
  "(nat \<Rightarrow> timestamp) \<Rightarrow> int \<Rightarrow> database \<Rightarrow> int \<Rightarrow> string option \<Rightarrow> database \<times> response"
where
  "archive_batch utcnow cu db batch_id reason_arg =
     (case get_batch db batch_id of
        None \<Rightarrow> (db, error_response Batch_not_found 404)
      | Some batch \<Rightarrow>
          if is_archived batch then (db, error_response Batch_is_already_archived 400)
          else
            let reason = (case reason_arg of None \<Rightarrow> ''Archived by teacher'' | Some r \<Rightarrow> r);
                batch' = batch\<lparr>is_archived := True,
                               archived_at := Some (utcnow 0),
                               archived_by := Some cu,
                               archive_reason := Some reason\<rparr>;
                (users', archived_students_count) =
                  archive_students utcnow cu (name batch') (enrolled db batch_id) (users db) 0
            in (db\<lparr>batches := put_batch batch' (batches db), users := users'\<rparr>,
                success_response Batch_and_students_archived_successfully
                  (Archived_data (row_id batch') (name batch') archived_students_count
                     (archived_at batch') reason) 200))"

text \<open>
  The loop of \<^verbatim>\<open>restore_batch\<close>. \<open>sublist m r\<close> is Python's \<^verbatim>\<open>m in r\<close> on strings;
  \<^verbatim>\<open>student.archive_reason and ...\<close> is false for a null or empty reason.
\<close>

fun restore_students ::
  "string \<Rightarrow> (user \<Rightarrow> bool) \<Rightarrow> user list \<Rightarrow> nat \<Rightarrow> user list \<times> nat"
where
  "restore_students nm member [] n = ([], n)"
| "restore_students nm member (student # rest) n =
     (if member student \<and> is_archived student \<and> role student = STUDENT \<and>
         (case archive_reason student of
            None \<Rightarrow> False
          | Some r \<Rightarrow> r \<noteq> [] \<and> sublist (cascade_marker nm) r) then
        (let student' = student\<lparr>is_archived := False,
                                 archived_at := None,
                                 archived_by := None,
                                 archive_reason := None\<rparr>;
             (rest', m) = restore_students nm member rest (Suc n)
         in (student' # rest', m))
      else
        (let (rest', m) = restore_students nm member rest n
         in (student # rest', m)))"

text \<open>
  \<^verbatim>\<open>restore_batch\<close>. \<open>restore_arg\<close> is the request's \<^verbatim>\<open>restore_students\<close> flag,
  \<open>None\<close> when the body or the key is absent (the default is \<^verbatim>\<open>True\<close>).
\<close>

definition restore_batch ::
  "database \<Rightarrow> int \<Rightarrow> bool option \<Rightarrow> database \<times> response"
where
  "restore_batch db batch_id restore_arg =
     (case get_batch db batch_id of
        None \<Rightarrow> (db, error_response Batch_not_found 404)
      | Some batch \<Rightarrow>
          if \<not> is_archived batch then (db, error_response Batch_is_not_archived 400)
          else
            let restore_students_flag = (case restore_arg of None \<Rightarrow> True | Some f \<Rightarrow> f);
                batch' = batch\<lparr>is_archived := False,
                               archived_at := None,
                               archived_by := None,
                               archive_reason := None\<rparr>;
                (users', restored_students_count) =
                  (if restore_students_flag
                   then restore_students (name batch') (enrolled db batch_id) (users db) 0
                   else (users db, 0))
            in (db\<lparr>batches := put_batch batch' (batches db), users := users'\<rparr>,
                success_response Batch_restored_successfully
                  (Restored_data (row_id batch') (name batch') restored_students_count) 200))"

section \<open>Request bodies\<close>

text \<open>
  \<^verbatim>\<open>request.get_json()\<close> is \<open>None\<close> or a JSON object, kept as the list of its items
  (\<open>map_of\<close> looks a key up). A JSON value is null, a boolean, an integer or a string;
  \<open>truthy\<close> is Python's truth value of it.
\<close>

datatype json = JNull | JBool bool | JInt int | JStr string

type_synonym body = "(string \<times> json) list"

fun truthy :: "json \<Rightarrow> bool" where
  "truthy JNull = False"
| "truthy (JBool b) = b"
| "truthy (JInt n) = (n \<noteq> 0)"
| "truthy (JStr s) = (s \<noteq> [])"

text \<open>
  \<^verbatim>\<open>str.strip()\<close>, for the ASCII whitespace characters (tab to carriage return, the
  four separators, space).
\<close>

definition is_space :: "char \<Rightarrow> bool" where
  "is_space c = (let n = (of_char c :: nat) in (9 \<le> n \<and> n \<le> 13) \<or> (28 \<le> n \<and> n \<le> 32))"

definition strip :: "string \<Rightarrow> string" where
  "strip s = rev (dropWhile is_space (rev (dropWhile is_space s)))"

text \<open>\<^verbatim>\<open>s.split(sep)[0]\<close>: the part of \<open>s\<close> before the first occurrence of \<open>sep\<close>.\<close>

fun split_head :: "string \<Rightarrow> string \<Rightarrow> string" where
  "split_head sep [] = []"
| "split_head sep (c # cs) = (if prefix sep (c # cs) then [] else c # split_head sep cs)"

definition allowed_classes :: "string list" where
  "allowed_classes =
     [''Class 1'', ''Class 2'', ''Class 3'', ''Class 4'', ''Class 5'',
      ''Class 6'', ''Class 7'', ''Class 8'', ''Class 9'', ''Class 10'',
      ''HSC 1st Year'', ''HSC 2nd Year'']"

definition allowed_subjects :: "string list" where
  "allowed_subjects =
     [''Mathematics'', ''Higher Mathematics'', ''Physics'', ''Chemistry'',
      ''Biology'', ''English'', ''Bangla'', ''ICT'', ''General Science'']"

text \<open>
  An exception that reaches a handler's \<^verbatim>\<open>except Exception\<close> is answered, after
  \<^verbatim>\<open>db.session.rollback()\<close>, with status 500; \<open>raised what\<close> is that reply.
\<close>

datatype exn = ValueError | TypeError | AttributeError | InvalidOperation

definition raised :: "string \<Rightarrow> response" where
  "raised what = error_response (Failed_to what) 500"

text \<open>
  \<^verbatim>\<open>db.session.commit()\<close> of a changed batches table. The schema (\<^verbatim>\<open>models.py\<close>) is
  not among the sources; \<open>unique_name\<close> says whether it declares \<^verbatim>\<open>Batch.name\<close> unique,
  in which case a commit that would store one name twice raises.
\<close>

definition commit_batches :: "bool \<Rightarrow> database \<Rightarrow> batch list \<Rightarrow> database option" where
  "commit_batches unique_name db bs =
     (if unique_name \<and> \<not> distinct (map name bs) then None else Some (db\<lparr>batches := bs\<rparr>))"

section \<open>Create\<close>

text \<open>
  \<^verbatim>\<open>create_batch\<close>. \<open>today\<close> is \<^verbatim>\<open>date.today()\<close>; \<open>blank\<close> is a batch row holding the
  schema's column defaults, and the new row's key is one the table does not use yet.
\<close>

definition fresh_id :: "batch list \<Rightarrow> int" where
  "fresh_id bs = fold max (map row_id bs) 0 + 1"

definition create_batch ::
  "bool \<Rightarrow> batch \<Rightarrow> date \<Rightarrow> database \<Rightarrow> body option \<Rightarrow> database \<times> response"
where
  "create_batch unique_name blank today db data_opt =
     (case data_opt of
        None \<Rightarrow> (db, error_response Request_data_is_required 400)
      | Some data \<Rightarrow>
          if data = [] then (db, error_response Request_data_is_required 400)
          else
            let missing_fields =
                  filter (\<lambda>field. case map_of data field of None \<Rightarrow> True | Some v \<Rightarrow> \<not> truthy v)
                    [''name'', ''class'', ''subject'']
            in if missing_fields \<noteq> [] then
                 (db, error_response (Missing_required_fields missing_fields) 400)
               else
                 (case map_of data ''class'' of
                    Some (JStr c) \<Rightarrow>
                      let class_name = strip c in
                      if class_name \<notin> set allowed_classes then
                        (db, error_response (Class_must_be_one_of allowed_classes) 400)
                      else
                        (case map_of data ''subject'' of
                           Some (JStr sj) \<Rightarrow>
                             let subject_name = strip sj in
                             if subject_name \<notin> set allowed_subjects then
                               (db, error_response (Subject_must_be_one_of allowed_subjects) 400)
                             else
                               (case map_of data ''name'' of
                                  Some (JStr nm) \<Rightarrow>
                                    if find (\<lambda>b. name b = strip nm) (batches db) \<noteq> None then
                                      (db, error_response Batch_with_this_name_already_exists 409)
                                    else
                                      let new_batch = blank\<lparr>
                                            row_id := fresh_id (batches db),
                                            is_active := True,
                                            name := strip nm,
                                            description := Some (class_name @ '' - '' @ subject_name),
                                            subject := subject_name,
                                            start_date := today,
                                            fee_amount := 0,
                                            max_students := Some 50,
                                            status := ''active''\<rparr>
                                      in (case commit_batches unique_name db (batches db @ [new_batch]) of
                                            None \<Rightarrow> (db, raised ''create batch'')
                                          | Some db' \<Rightarrow>
                                              (db', success_response Batch_created_successfully
                                                      (Batch_data new_batch (Some class_name)) 201))
                                | _ \<Rightarrow> (db, raised ''create batch''))
                         | _ \<Rightarrow> (db, raised ''create batch''))
                  | _ \<Rightarrow> (db, raised ''create batch'')))"

section \<open>Update\<close>

text \<open>
  The name check of \<^verbatim>\<open>update_batch\<close>: \<open>Some\<close> reply when the handler returns there.
  \<^verbatim>\<open>data['name'].strip()\<close> raises on a value that is not a string.
\<close>

definition name_conflict :: "database \<Rightarrow> batch \<Rightarrow> int \<Rightarrow> body \<Rightarrow> response option" where
  "name_conflict db batch batch_id data =
     (case map_of data ''name'' of
        None \<Rightarrow> None
      | Some (JStr nm) \<Rightarrow>
          if strip nm \<noteq> name batch \<and>
             find (\<lambda>b. name b = strip nm \<and> row_id b \<noteq> batch_id) (batches db) \<noteq> None
          then Some (error_response Batch_with_this_name_already_exists 409)
          else None
      | Some _ \<Rightarrow> Some (raised ''update batch''))"

text \<open>
  \<^verbatim>\<open>if new_class: if new_class not in allowed: return ...\<close>: \<open>None\<close> when the value is
  rejected, \<open>Some None\<close> when it is falsy and skipped, \<open>Some (Some s)\<close> when it is the
  allowed string \<open>s\<close>.
\<close>

definition validate_choice :: "json \<Rightarrow> string list \<Rightarrow> string option option" where
  "validate_choice v allowed =
     (if \<not> truthy v then Some None
      else case v of
             JStr s \<Rightarrow> if s \<in> set allowed then Some (Some s) else None
           | _ \<Rightarrow> None)"

text \<open>
  The class and subject block. \<^verbatim>\<open>' - ' in batch.description\<close> raises on a null
  description.
\<close>

definition update_class_subject :: "body \<Rightarrow> batch \<Rightarrow> response + batch" where
  "update_class_subject data batch =
     (if map_of data ''class'' \<noteq> None \<or> map_of data ''subject'' \<noteq> None then
        (case description batch of
           None \<Rightarrow> Inl (raised ''update batch'')
         | Some d \<Rightarrow>
             let current_class = (if sublist '' - '' d then JStr (split_head '' - '' d) else JNull);
                 current_subject = JStr (subject batch);
                 new_class = (case map_of data ''class'' of Some v \<Rightarrow> v | None \<Rightarrow> current_class);
                 new_subject = (case map_of data ''subject'' of Some v \<Rightarrow> v | None \<Rightarrow> current_subject)
             in (case validate_choice new_class allowed_classes of
                   None \<Rightarrow> Inl (error_response (Class_must_be_one_of allowed_classes) 400)
                 | Some cls \<Rightarrow>
                     (case validate_choice new_subject allowed_subjects of
                        None \<Rightarrow> Inl (error_response (Subject_must_be_one_of allowed_subjects) 400)
                      | Some None \<Rightarrow> Inr batch
                      | Some (Some sj) \<Rightarrow>
                          let batch1 = batch\<lparr>subject := sj\<rparr> in
                          (case cls of
                             None \<Rightarrow> Inr batch1
                           | Some c \<Rightarrow> Inr (batch1\<lparr>description := Some (c @ '' - '' @ sj)\<rparr>)))))
      else Inr batch)"

text \<open>
  \<^verbatim>\<open>setattr(batch, field, value)\<close> for the columns the loop below names. A value that
  does not fit the column fails when the session is flushed: \<open>None\<close>.
\<close>

datatype attr = AJson json | ADate date | ADecimal decimal

fun setattr_batch :: "batch \<Rightarrow> string \<Rightarrow> attr \<Rightarrow> batch option" where
  "setattr_batch b field (AJson (JStr s)) =
     (if field = ''name'' then Some (b\<lparr>name := s\<rparr>) else None)"
| "setattr_batch b field (AJson JNull) =
     (if field = ''end_date'' then Some (b\<lparr>end_date := None\<rparr>) else None)"
| "setattr_batch b field (AJson _) = None"
| "setattr_batch b field (ADate d) =
     (if field = ''start_date'' then Some (b\<lparr>start_date := d\<rparr>)
      else if field = ''end_date'' then Some (b\<lparr>end_date := Some d\<rparr>)
      else None)"
| "setattr_batch b field (ADecimal x) =
     (if field = ''fee_amount'' then Some (b\<lparr>fee_amount := x\<rparr>) else None)"

definition set_or_raise :: "batch \<Rightarrow> string \<Rightarrow> attr \<Rightarrow> response + batch" where
  "set_or_raise b field v =
     (case setattr_batch b field v of None \<Rightarrow> Inl (raised ''update batch'') | Some b' \<Rightarrow> Inr b')"

text \<open>
  One round of the loop \<^verbatim>\<open>for field in updatable_fields\<close>. \<open>strptime\<close> is
  \<^verbatim>\<open>datetime.strptime(v, '%Y-%m-%d').date()\<close> and \<open>to_decimal\<close> is \<^verbatim>\<open>Decimal(str(v))\<close>,
  both with the exception they raise; \<open>Inl\<close> is the reply of an early return.
\<close>

definition update_field ::
  "(json \<Rightarrow> exn + date) \<Rightarrow> (json \<Rightarrow> exn + decimal) \<Rightarrow> body \<Rightarrow> batch \<Rightarrow> string \<Rightarrow> response + batch"
where
  "update_field strptime to_decimal data batch field =
     (case map_of data field of
        None \<Rightarrow> Inr batch
      | Some v \<Rightarrow>
          if field \<in> set [''start_date'', ''end_date''] \<and> truthy v then
            (case strptime v of
               Inr d \<Rightarrow> set_or_raise batch field (ADate d)
             | Inl e \<Rightarrow>
                 if e = ValueError then Inl (error_response (Invalid_format_Use_YYYY_MM_DD field) 400)
                 else Inl (raised ''update batch''))
          else if field = ''fee_amount'' \<and> v \<noteq> JNull then
            (case to_decimal v of
               Inr fee \<Rightarrow>
                 if fee < 0 then Inl (error_response Fee_amount_cannot_be_negative 400)
                 else set_or_raise batch field (ADecimal fee)
             | Inl e \<Rightarrow>
                 if e \<in> set [ValueError, TypeError] then Inl (error_response Invalid_fee_amount 400)
                 else Inl (raised ''update batch''))
          else set_or_raise batch field (AJson v))"

fun update_fields ::
  "(json \<Rightarrow> exn + date) \<Rightarrow> (json \<Rightarrow> exn + decimal) \<Rightarrow> body \<Rightarrow> string list \<Rightarrow> batch \<Rightarrow> response + batch"
where
  "update_fields strptime to_decimal data [] batch = Inr batch"
| "update_fields strptime to_decimal data (field # more_fields) batch =
     (case update_field strptime to_decimal data batch field of
        Inl r \<Rightarrow> Inl r
      | Inr batch' \<Rightarrow> update_fields strptime to_decimal data more_fields batch')"

definition updatable_fields :: "string list" where
  "updatable_fields = [''name'']"

text \<open>\<^verbatim>\<open>update_batch\<close>. \<open>utcnow\<close> is the reading of \<^verbatim>\<open>datetime.utcnow()\<close>.\<close>

definition update_batch ::
  "(json \<Rightarrow> exn + date) \<Rightarrow> (json \<Rightarrow> exn + decimal) \<Rightarrow> bool \<Rightarrow> timestamp \<Rightarrow>
   database \<Rightarrow> int \<Rightarrow> body option \<Rightarrow> database \<times> response"
where
  "update_batch strptime to_decimal unique_name utcnow db batch_id data_opt =
     (case get_batch db batch_id of
        None \<Rightarrow> (db, error_response Batch_not_found 404)
      | Some batch \<Rightarrow>
          (case data_opt of
             None \<Rightarrow> (db, error_response Request_data_is_required 400)
           | Some data \<Rightarrow>
               if data = [] then (db, error_response Request_data_is_required 400)
               else
                 (case name_conflict db batch batch_id data of
                    Some r \<Rightarrow> (db, r)
                  | None \<Rightarrow>
                      (case update_class_subject data batch of
                         Inl r \<Rightarrow> (db, r)
                       | Inr batch1 \<Rightarrow>
                           (case update_fields strptime to_decimal data updatable_fields batch1 of
                              Inl r \<Rightarrow> (db, r)
                            | Inr batch2 \<Rightarrow>
                                if (case end_date batch2 of
                                      None \<Rightarrow> False
                                    | Some e \<Rightarrow> e \<le> start_date batch2)
                                then (db, error_response End_date_must_be_after_start_date 400)
                                else
                                  let batch3 = batch2\<lparr>updated_at := Some utcnow\<rparr> in
                                  (case commit_batches unique_name db (put_batch batch3 (batches db)) of
                                     None \<Rightarrow> (db, raised ''update batch'')
                                   | Some db' \<Rightarrow>
                                       (db', success_response Batch_updated_successfully
                                               (Batch_data batch3 None) 200)))))))"

section \<open>Delete\<close>

text \<open>
  \<^verbatim>\<open>delete_batch\<close>: \<^verbatim>\<open>batch.students.clear()\<close> drops the batch's association rows,
  \<^verbatim>\<open>db.session.delete(batch)\<close> drops its row.
\<close>

definition delete_batch :: "database \<Rightarrow> int \<Rightarrow> database \<times> response" where
  "delete_batch db batch_id =
     (case get_batch db batch_id of
        None \<Rightarrow> (db, error_response Batch_not_found 404)
      | Some batch \<Rightarrow>
          let active_students = filter is_active (batch_students db batch_id) in
          if active_students \<noteq> [] then
            (db, error_response
                   (Cannot_delete_batch_with_active_students (length active_students)) 400)
          else
            let batch_name = name batch;
                db1 = db\<lparr>user_batches := filter (\<lambda>(u, b). b \<noteq> batch_id) (user_batches db)\<rparr>;
                db2 = db1\<lparr>batches := filter (\<lambda>b. row_id b \<noteq> batch_id) (batches db1)\<rparr>
            in (db2, success_response (Batch_deleted_permanently batch_name) No_data 200))"

section \<open>Ranked roster\<close>

text \<open>
  \<^verbatim>\<open>.order_by(MonthlyExam.year.desc(), MonthlyExam.month.desc()).first()\<close>: the rows in
  descending key order, rows of equal key in table order, and the first of them.
\<close>

definition order_by_desc :: "('a \<Rightarrow> 'k::linorder) \<Rightarrow> 'a list \<Rightarrow> 'a list" where
  "order_by_desc key rows = rev (sort_key key (rev rows))"

definition first_row :: "'a list \<Rightarrow> 'a option" where
  "first_row rows = (case rows of [] \<Rightarrow> None | r # _ \<Rightarrow> Some r)"

definition most_recent_exam :: "database \<Rightarrow> int \<Rightarrow> monthly_exam option" where
  "most_recent_exam db batch_id =
     first_row (order_by_desc (\<lambda>e. (year e, month e))
                  (filter (\<lambda>e. exam_batch_id e = batch_id) (monthly_exams db)))"

text \<open>The loop filling \<^verbatim>\<open>rank_map\<close>; \<^verbatim>\<open>if ranking.position\<close> skips null and 0.\<close>

fun fill_rank_map :: "monthly_ranking list \<Rightarrow> (int \<rightharpoonup> int) \<Rightarrow> (int \<rightharpoonup> int)" where
  "fill_rank_map [] rank_map = rank_map"
| "fill_rank_map (ranking # rankings) rank_map =
     fill_rank_map rankings
       (case position ranking of
          None \<Rightarrow> rank_map
        | Some p \<Rightarrow> if p \<noteq> 0 then rank_map(ranking_user_id ranking \<mapsto> p) else rank_map)"

definition rank_map_of :: "database \<Rightarrow> int \<Rightarrow> (int \<rightharpoonup> int)" where
  "rank_map_of db batch_id =
     (case most_recent_exam db batch_id of
        None \<Rightarrow> Map.empty
      | Some exam \<Rightarrow>
          fill_rank_map
            (filter (\<lambda>r. monthly_exam_id r = exam_id exam \<and> is_final r) (monthly_rankings db))
            Map.empty)"

text \<open>
  The entry of one student (the columns of the users table above), and the key of
  \<^verbatim>\<open>students.sort\<close>. Python compares the key tuples lexicographically, \<open>False\<close> before
  \<open>True\<close>, and its sort is stable, as \<open>sort_key\<close> is.
\<close>

definition student_entry :: "(int \<rightharpoonup> int) \<Rightarrow> user \<Rightarrow> student_data" where
  "student_entry rank_map student =
     \<lparr>sd_id = row_id student,
      sd_phoneNumber = phoneNumber student,
      sd_phone = phoneNumber student,
      sd_first_name = first_name student,
      sd_last_name = last_name student,
      sd_email = email student,
      roll_number = rank_map (row_id student),
      current_rank = rank_map (row_id student)\<rparr>"

definition roster_key :: "student_data \<Rightarrow> bool \<times> int" where
  "roster_key s =
     (current_rank s = None,
      (case current_rank s of None \<Rightarrow> 999999 | Some r \<Rightarrow> if r \<noteq> 0 then r else 999999))"

definition get_batch_students :: "database \<Rightarrow> int \<Rightarrow> response" where
  "get_batch_students db batch_id =
     (case get_batch db batch_id of
        None \<Rightarrow> error_response Batch_not_found 404
      | Some batch \<Rightarrow>
          let rank_map = rank_map_of db batch_id;
              students = map (student_entry rank_map) (filter is_active (loaded_students db batch_id))
          in success_response Batch_students_retrieved
               (Students_data (sort_key roster_key students)) 200)"

section \<open>Enrolment\<close>

text \<open>
  \<^verbatim>\<open>add_student_to_batch\<close>. The request is \<open>None\<close> without a JSON body (then
  \<^verbatim>\<open>data.get\<close> raises), \<open>Some None\<close> without a \<^verbatim>\<open>student_id\<close>, \<open>Some (Some i)\<close> with the
  integer \<open>i\<close>.
\<close>

definition add_student_to_batch :: "database \<Rightarrow> int \<Rightarrow> int option option \<Rightarrow> database \<times> response" where
  "add_student_to_batch db batch_id data =
     (case get_batch db batch_id of
        None \<Rightarrow> (db, error_response Batch_not_found 404)
      | Some batch \<Rightarrow>
          (case data of
             None \<Rightarrow> (db, raised ''add student to batch'')
           | Some student_id_opt \<Rightarrow>
               (case student_id_opt of
                  None \<Rightarrow> (db, error_response Student_ID_is_required 400)
                | Some student_id \<Rightarrow>
                    if student_id = 0 then (db, error_response Student_ID_is_required 400)
                    else
                      (case find (\<lambda>u. row_id u = student_id \<and> role u = STUDENT \<and> is_active u)
                              (users db) of
                         None \<Rightarrow> (db, error_response Student_not_found 404)
                       | Some student \<Rightarrow>
                           if enrolled db batch_id student then
                             (db, error_response Student_is_already_enrolled_in_this_batch 409)
                           else
                             (db\<lparr>user_batches := user_batches db @ [(row_id student, batch_id)]\<rparr>,
                              success_response Student_added_to_batch_successfully No_data 200)))))"

definition remove_student_from_batch :: "database \<Rightarrow> int \<Rightarrow> int \<Rightarrow> database \<times> response" where
  "remove_student_from_batch db batch_id student_id =
     (case get_batch db batch_id of
        None \<Rightarrow> (db, error_response Batch_not_found 404)
      | Some batch \<Rightarrow>
          (case find (\<lambda>u. row_id u = student_id \<and> role u = STUDENT) (users db) of
             None \<Rightarrow> (db, error_response Student_not_found 404)
           | Some student \<Rightarrow>
               if \<not> enrolled db batch_id student then
                 (db, error_response Student_is_not_enrolled_in_this_batch 404)
               else
                 (db\<lparr>user_batches :=
                       filter (\<lambda>row. row \<noteq> (row_id student, batch_id)) (user_batches db)\<rparr>,
                  success_response Student_removed_from_batch_successfully No_data 200)))"

section \<open>Predicates used in the statements\<close>

text \<open>A student row as the archive cascade of the batch named \<open>nm\<close> leaves it.\<close>

definition archived_by_cascade :: "int \<Rightarrow> string \<Rightarrow> user \<Rightarrow> user \<Rightarrow> bool" where
  "archived_by_cascade cu nm u u' =
     (archived_at u' \<noteq> None \<and>
      u' = u\<lparr>is_archived := True, archived_at := archived_at u', archived_by := Some cu,
             archive_reason := Some (cascade_marker nm)\<rparr>)"

text \<open>
  The students the archive loop archives, the students the restore loop restores for
  the batch name \<open>nm\<close>, and a student row with its archive columns cleared.
\<close>

definition cascaded :: "database \<Rightarrow> int \<Rightarrow> user \<Rightarrow> bool" where
  "cascaded db batch_id u = (enrolled db batch_id u \<and> \<not> is_archived u \<and> role u = STUDENT)"

definition carries_marker :: "string \<Rightarrow> user \<Rightarrow> bool" where
  "carries_marker nm u =
     (case archive_reason u of None \<Rightarrow> False | Some r \<Rightarrow> sublist (cascade_marker nm) r)"

definition restorable :: "database \<Rightarrow> int \<Rightarrow> string \<Rightarrow> user \<Rightarrow> bool" where
  "restorable db batch_id nm u =
     (enrolled db batch_id u \<and> role u = STUDENT \<and> is_archived u \<and> carries_marker nm u)"

definition unarchived :: "user \<Rightarrow> user" where
  "unarchived u = u\<lparr>is_archived := False, archived_at := None, archived_by := None,
                     archive_reason := None\<rparr>"

text \<open>
  Two rows that differ in the four archive columns at most, and two databases that
  differ in nothing but the archive columns of the batch \<open>batch_id\<close> and of its
  enrolled students.
\<close>

definition archive_frame :: "'a entity_scheme \<Rightarrow> 'a entity_scheme \<Rightarrow> bool" where
  "archive_frame x x' =
     (x'\<lparr>is_archived := is_archived x, archived_at := archived_at x,
         archived_by := archived_by x, archive_reason := archive_reason x\<rparr> = x)"

definition only_archive_fields_changed :: "database \<Rightarrow> int \<Rightarrow> database \<Rightarrow> bool" where
  "only_archive_fields_changed db batch_id db' =
     (list_all2 (\<lambda>b b'. if row_id b = batch_id then archive_frame b b' else b' = b)
        (batches db) (batches db')
    \<and> list_all2 (\<lambda>u u'. if enrolled db batch_id u \<and> role u = STUDENT
                          then archive_frame u u' else u' = u)
        (users db) (users db')
    \<and> map is_active (batches db') = map is_active (batches db)
    \<and> map is_active (users db') = map is_active (users db)
    \<and> user_batches db' = user_batches db
    \<and> monthly_exams db' = monthly_exams db
    \<and> monthly_rankings db' = monthly_rankings db)"

text \<open>
  The entries of the roster before sorting, the rank an entry is sorted by, the
  entries with a rank in ascending order followed by the others as they stand, a
  ranking row that \<^verbatim>\<open>if ranking.position\<close> skips, the rank the final rows of an exam
  give a user (the position of the last such row that is not skipped), and what a
  reply lists: first name, roll number and rank of each entry, in order.
\<close>

definition roster_rows :: "database \<Rightarrow> int \<Rightarrow> student_data list" where
  "roster_rows db batch_id =
     map (student_entry (rank_map_of db batch_id)) (filter is_active (loaded_students db batch_id))"

definition rank_value :: "student_data \<Rightarrow> int" where
  "rank_value s = (case current_rank s of None \<Rightarrow> 999999 | Some r \<Rightarrow> r)"

definition falsy_position :: "monthly_ranking \<Rightarrow> bool" where
  "falsy_position r = (position r = None \<or> position r = Some 0)"

definition ranked_first :: "student_data list \<Rightarrow> student_data list" where
  "ranked_first rows =
     sort_key rank_value (filter (\<lambda>s. current_rank s \<noteq> None) rows) @
     filter (\<lambda>s. current_rank s = None) rows"

definition final_rows :: "database \<Rightarrow> monthly_exam \<Rightarrow> int \<Rightarrow> monthly_ranking list" where
  "final_rows db ex uid =
     filter (\<lambda>r. monthly_exam_id r = exam_id ex \<and> is_final r \<and> ranking_user_id r = uid \<and>
                 \<not> falsy_position r)
       (monthly_rankings db)"

definition final_position :: "database \<Rightarrow> monthly_exam \<Rightarrow> int \<Rightarrow> int option" where
  "final_position db ex uid =
     (if final_rows db ex uid = [] then None else position (last (final_rows db ex uid)))"

definition listed :: "response \<Rightarrow> (string \<times> int option \<times> int option) list" where
  "listed r =
     (case r of
        success_response m (Students_data out) st \<Rightarrow>
          map (\<lambda>s. (sd_first_name s, roll_number s, current_rank s)) out
      | _ \<Rightarrow> [])"

text \<open>
  The messages an update can be refused with, two batch rows with the same key, dates
  and fee, and the request keys of the dates and the fee.
\<close>

definition update_errors :: "message set" where
  "update_errors =
     {Request_data_is_required, Batch_with_this_name_already_exists, Failed_to ''update batch'',
      Class_must_be_one_of allowed_classes, Subject_must_be_one_of allowed_subjects,
      End_date_must_be_after_start_date}"

definition same_dates_and_fee :: "batch \<Rightarrow> batch \<Rightarrow> bool" where
  "same_dates_and_fee b b' =
     (row_id b' = row_id b \<and> start_date b' = start_date b \<and> end_date b' = end_date b \<and>
      fee_amount b' = fee_amount b)"

definition date_or_fee_key :: "string \<Rightarrow> bool" where
  "date_or_fee_key k = (k \<in> set [''start_date'', ''end_date'', ''fee_amount''])"

section \<open>Sample data\<close>

definition sample_batch :: batch where
  "sample_batch =
     \<lparr>row_id = 1, is_active = True, is_archived = False, archived_at = None,
      archived_by = None, archive_reason = None, name = ''Physics A'',
      description = Some ''Class 9 - Physics'', subject = ''Physics'', start_date = 738000,
      end_date = None, fee_amount = 0, max_students = Some 50, status = ''active'',
      updated_at = None\<rparr>"

definition new_user :: "int \<Rightarrow> string \<Rightarrow> UserRole \<Rightarrow> user" where
  "new_user i fn r =
     \<lparr>row_id = i, is_active = True, is_archived = False, archived_at = None,
      archived_by = None, archive_reason = None, phoneNumber = ''017'',
      first_name = fn, last_name = ''X'', email = None, role = r\<rparr>"

text \<open>
  One batch with four enrolled users: an active student, a student archived earlier
  for another reason, an inactive student and a teacher; a fifth user is not enrolled.
\<close>

definition sample_db :: database where
  "sample_db =
     \<lparr>batches = [sample_batch],
      users = [new_user 1 ''A'' STUDENT,
               (new_user 2 ''B'' STUDENT)\<lparr>is_archived := True, archived_at := Some 5,
                  archived_by := Some 9, archive_reason := Some ''Left school''\<rparr>,
               (new_user 3 ''C'' STUDENT)\<lparr>is_active := False\<rparr>,
               new_user 4 ''D'' TEACHER,
               new_user 5 ''E'' STUDENT],
      user_batches = [(1, 1), (2, 1), (3, 1), (4, 1)],
      monthly_exams = [],
      monthly_rankings = []\<rparr>"

definition sample_clock :: "nat \<Rightarrow> timestamp" where
  "sample_clock k = 100 + int k"

text \<open>
  A batch with one enrolled student and a second student not enrolled yet; and the
  database reached from it by archiving the batch, restoring it without its students
  and enrolling the second student.
\<close>

definition roster_db :: database where
  "roster_db =
     \<lparr>batches = [sample_batch],
      users = [new_user 1 ''A'' STUDENT, new_user 2 ''B'' STUDENT],
      user_batches = [(1, 1)],
      monthly_exams = [],
      monthly_rankings = []\<rparr>"

definition second_cycle_db :: database where
  "second_cycle_db =
     fst (add_student_to_batch
            (fst (restore_batch (fst (archive_batch sample_clock 9 roster_db 1 None)) 1 (Some False)))
            1 (Some (Some 2)))"

text \<open>Two batches; the only student of the first one is inactive.\<close>

definition idle_db :: database where
  "idle_db =
     \<lparr>batches = [sample_batch, sample_batch\<lparr>row_id := 2, name := ''Chemistry B''\<rparr>],
      users = [(new_user 1 ''A'' STUDENT)\<lparr>is_active := False\<rparr>, new_user 2 ''B'' STUDENT],
      user_batches = [(1, 1), (2, 2), (1, 2)],
      monthly_exams = [],
      monthly_rankings = []\<rparr>"


text \<open>
  A batch with four exams on record, one of another batch, and rankings: final ones of
  the latest exam for A (3), B (1) and D (0), one that is not final for C, and a final
  one of an older exam for C.
\<close>

definition ranked_db :: database where
  "ranked_db =
     \<lparr>batches = [sample_batch],
      users = [new_user 1 ''A'' STUDENT, new_user 2 ''B'' STUDENT, new_user 3 ''C'' STUDENT,
               new_user 4 ''D'' STUDENT],
      user_batches = [(1, 1), (2, 1), (3, 1), (4, 1)],
      monthly_exams =
        [\<lparr>exam_id = 10, exam_batch_id = 1, year = 2024, month = 5\<rparr>,
         \<lparr>exam_id = 11, exam_batch_id = 1, year = 2024, month = 6\<rparr>,
         \<lparr>exam_id = 12, exam_batch_id = 2, year = 2025, month = 1\<rparr>,
         \<lparr>exam_id = 13, exam_batch_id = 1, year = 2023, month = 12\<rparr>],
      monthly_rankings =
        [\<lparr>monthly_exam_id = 10, ranking_user_id = 3, position = Some 1, is_final = True\<rparr>,
         \<lparr>monthly_exam_id = 11, ranking_user_id = 1, position = Some 3, is_final = True\<rparr>,
         \<lparr>monthly_exam_id = 11, ranking_user_id = 2, position = Some 1, is_final = True\<rparr>,
         \<lparr>monthly_exam_id = 11, ranking_user_id = 3, position = Some 2, is_final = False\<rparr>,
         \<lparr>monthly_exam_id = 11, ranking_user_id = 4, position = Some 0, is_final = True\<rparr>]\<rparr>"

text \<open>
  The students A, B and C of one batch, enrolled in the order C, A, B, beside an active
  student E of another batch and an inactive student F of this one. Two exams of the
  batch share the latest month; the first of them in the table is exam 11. Its final
  rows give A the positions 7 and then 3, B the position 1, E 2 and F 4; C has a row
  that is not final, a final row of an older exam and a final row of the second exam
  of the latest month. \<open>wide_db\<close> adds G with the final position 12, enrolled last,
  and H without a ranking, enrolled first.
\<close>

definition abc_db :: database where
  "abc_db =
     \<lparr>batches = [sample_batch, sample_batch\<lparr>row_id := 2, name := ''Chemistry B''\<rparr>],
      users = [new_user 1 ''A'' STUDENT, new_user 2 ''B'' STUDENT, new_user 3 ''C'' STUDENT,
               new_user 5 ''E'' STUDENT, (new_user 6 ''F'' STUDENT)\<lparr>is_active := False\<rparr>],
      user_batches = [(3, 1), (6, 1), (1, 1), (5, 2), (2, 1)],
      monthly_exams =
        [\<lparr>exam_id = 10, exam_batch_id = 1, year = 2024, month = 5\<rparr>,
         \<lparr>exam_id = 11, exam_batch_id = 1, year = 2024, month = 6\<rparr>,
         \<lparr>exam_id = 12, exam_batch_id = 2, year = 2025, month = 1\<rparr>,
         \<lparr>exam_id = 14, exam_batch_id = 1, year = 2024, month = 6\<rparr>,
         \<lparr>exam_id = 13, exam_batch_id = 1, year = 2023, month = 12\<rparr>],
      monthly_rankings =
        [\<lparr>monthly_exam_id = 10, ranking_user_id = 3, position = Some 1, is_final = True\<rparr>,
         \<lparr>monthly_exam_id = 11, ranking_user_id = 1, position = Some 7, is_final = True\<rparr>,
         \<lparr>monthly_exam_id = 11, ranking_user_id = 2, position = Some 1, is_final = True\<rparr>,
         \<lparr>monthly_exam_id = 11, ranking_user_id = 3, position = Some 2, is_final = False\<rparr>,
         \<lparr>monthly_exam_id = 11, ranking_user_id = 1, position = Some 3, is_final = True\<rparr>,
         \<lparr>monthly_exam_id = 11, ranking_user_id = 5, position = Some 2, is_final = True\<rparr>,
         \<lparr>monthly_exam_id = 11, ranking_user_id = 6, position = Some 4, is_final = True\<rparr>,
         \<lparr>monthly_exam_id = 14, ranking_user_id = 3, position = Some 1, is_final = True\<rparr>]\<rparr>"

definition wide_db :: database where
  "wide_db =
     abc_db\<lparr>users := users abc_db @ [new_user 7 ''G'' STUDENT, new_user 8 ''H'' STUDENT],
            user_batches := (8, 1) # user_batches abc_db @ [(7, 1)],
            monthly_rankings := monthly_rankings abc_db @
              [\<lparr>monthly_exam_id = 11, ranking_user_id = 7, position = Some 12, is_final = True\<rparr>]\<rparr>"

text \<open>
  A date parser that knows one date and a decimal parser for integers; a batch whose
  stored end date lies before its start date; and \<open>idle_db\<close> after one and after two
  renamings to a name with a leading space.
\<close>

definition sample_strptime :: "json \<Rightarrow> exn + date" where
  "sample_strptime v =
     (case v of
        JStr s \<Rightarrow> if s = ''2020-01-01'' then Inr 737425 else Inl ValueError
      | _ \<Rightarrow> Inl TypeError)"

definition sample_decimal :: "json \<Rightarrow> exn + decimal" where
  "sample_decimal v = (case v of JInt n \<Rightarrow> Inr (of_int n) | _ \<Rightarrow> Inl InvalidOperation)"

definition stale_batch :: batch where
  "stale_batch = sample_batch\<lparr>end_date := Some 737000\<rparr>"

definition stale_db :: database where
  "stale_db = sample_db\<lparr>batches := [stale_batch]\<rparr>"

definition once_renamed_db :: database where
  "once_renamed_db =
     idle_db\<lparr>batches := [sample_batch\<lparr>name := '' Biology C'', updated_at := Some 500\<rparr>,
                          sample_batch\<lparr>row_id := 2, name := ''Chemistry B''\<rparr>]\<rparr>"

definition twice_renamed_db :: database where
  "twice_renamed_db =
     idle_db\<lparr>batches := [sample_batch\<lparr>name := '' Biology C'', updated_at := Some 500\<rparr>,
                          sample_batch\<lparr>row_id := 2, name := '' Biology C'', updated_at := Some 600\<rparr>]\<rparr>"


section \<open>The archive cascade\<close>

lemma archived_by_cascade_iff:
  "archived_by_cascade cu nm u u' \<longleftrightarrow>
     (\<exists>t. u' = u\<lparr>is_archived := True, archived_at := Some t, archived_by := Some cu,
                  archive_reason := Some (cascade_marker nm)\<rparr>)"
proof
  assume "archived_by_cascade cu nm u u'"
  then obtain t where "archived_at u' = Some t"
    and "u' = u\<lparr>is_archived := True, archived_at := archived_at u', archived_by := Some cu,
                archive_reason := Some (cascade_marker nm)\<rparr>"
    by (auto simp: archived_by_cascade_def)
  then have "u' = u\<lparr>is_archived := True, archived_at := Some t, archived_by := Some cu,
                archive_reason := Some (cascade_marker nm)\<rparr>"
    by simp
  then show "\<exists>t. u' = u\<lparr>is_archived := True, archived_at := Some t, archived_by := Some cu,
                  archive_reason := Some (cascade_marker nm)\<rparr>" ..
next
  assume "\<exists>t. u' = u\<lparr>is_archived := True, archived_at := Some t, archived_by := Some cu,
                  archive_reason := Some (cascade_marker nm)\<rparr>"
  then show "archived_by_cascade cu nm u u'"
    by (auto simp: archived_by_cascade_def)
qed

lemma archive_students_rel:
  "archive_students utcnow cu nm member us n = (us', m) \<Longrightarrow>
   list_all2 (\<lambda>u u'. if member u \<and> \<not> is_archived u \<and> role u = STUDENT
                       then archived_by_cascade cu nm u u' else u' = u) us us'"
proof (induction us arbitrary: n us' m)
  case Nil
  then show ?case by simp
next
  case (Cons s ss)
  show ?case
  proof (cases "member s \<and> \<not> is_archived s \<and> role s = STUDENT")
    case True
    obtain r k where rk: "archive_students utcnow cu nm member ss (Suc n) = (r, k)"
      by (cases "archive_students utcnow cu nm member ss (Suc n)")
    with Cons.prems True have
      "us' = s\<lparr>is_archived := True, archived_at := Some (utcnow (Suc n)), archived_by := Some cu,
                archive_reason := Some (cascade_marker nm)\<rparr> # r"
      by (auto simp: Let_def)
    with Cons.IH [OF rk] True show ?thesis
      by (auto simp: archived_by_cascade_iff)
  next
    case False
    obtain r k where rk: "archive_students utcnow cu nm member ss n = (r, k)"
      by (cases "archive_students utcnow cu nm member ss n")
    with Cons.prems False have "us' = s # r"
      by (auto simp: Let_def)
    with Cons.IH [OF rk] False show ?thesis
      by auto
  qed
qed

lemma archive_students_count:
  "snd (archive_students utcnow cu nm member us n) =
     n + length (filter (\<lambda>u. member u \<and> \<not> is_archived u \<and> role u = STUDENT) us)"
  by (induction us arbitrary: n) (simp_all add: Let_def split_beta)

lemma find_put_batch:
  "find (\<lambda>b. row_id b = k) bs = Some b \<Longrightarrow> row_id b' = k \<Longrightarrow>
   find (\<lambda>b. row_id b = k) (put_batch b' bs) = Some b'"
  by (induction bs) (auto split: if_splits)

lemma get_batch_key: "get_batch db batch_id = Some b \<Longrightarrow> row_id b = batch_id"
  by (auto simp: get_batch_def dest: find_Some_iff [THEN iffD1])

lemma archived_by_cascade_flag: "archived_by_cascade cu nm u u' \<Longrightarrow> is_archived u'"
  by (auto simp: archived_by_cascade_iff)

lemma changed_rows_count:
  "list_all2 (\<lambda>u u'. if P u then u' \<noteq> u else u' = u) us us' \<Longrightarrow>
   length (filter (\<lambda>(u, u'). u' \<noteq> u) (zip us us')) = length (filter P us)"
  by (induction us us' rule: list_all2_induct) auto

lemma archive_batch_run:
  assumes "get_batch db batch_id = Some b" and "\<not> is_archived b"
  shows "\<exists>us'.
      archive_batch utcnow cu db batch_id reason =
        (db\<lparr>batches := put_batch (b\<lparr>is_archived := True, archived_at := Some (utcnow 0),
                 archived_by := Some cu,
                 archive_reason := Some (case reason of None \<Rightarrow> ''Archived by teacher'' | Some x \<Rightarrow> x)\<rparr>)
               (batches db),
            users := us'\<rparr>,
         success_response Batch_and_students_archived_successfully
           (Archived_data batch_id (name b) (length (filter (cascaded db batch_id) (users db)))
              (Some (utcnow 0)) (case reason of None \<Rightarrow> ''Archived by teacher'' | Some x \<Rightarrow> x)) 200)
    \<and> list_all2 (\<lambda>u u'. if cascaded db batch_id u
                          then archived_by_cascade cu (name b) u u' else u' = u) (users db) us'"
proof -
  obtain us' n where loop:
    "archive_students utcnow cu (name b) (enrolled db batch_id) (users db) 0 = (us', n)"
    by (cases "archive_students utcnow cu (name b) (enrolled db batch_id) (users db) 0")
  from assms(1) have key: "row_id b = batch_id"
    by (rule get_batch_key)
  have n: "n = length (filter (cascaded db batch_id) (users db))"
    using archive_students_count [of utcnow cu "name b" "enrolled db batch_id" "users db" 0] loop
    by (simp add: cascaded_def [abs_def])
  have "archive_batch utcnow cu db batch_id reason =
        (db\<lparr>batches := put_batch (b\<lparr>is_archived := True, archived_at := Some (utcnow 0),
                 archived_by := Some cu,
                 archive_reason := Some (case reason of None \<Rightarrow> ''Archived by teacher'' | Some x \<Rightarrow> x)\<rparr>)
               (batches db),
            users := us'\<rparr>,
         success_response Batch_and_students_archived_successfully
           (Archived_data batch_id (name b) (length (filter (cascaded db batch_id) (users db)))
              (Some (utcnow 0)) (case reason of None \<Rightarrow> ''Archived by teacher'' | Some x \<Rightarrow> x)) 200)"
    using assms loop key n by (simp add: archive_batch_def Let_def)
  moreover have "list_all2 (\<lambda>u u'. if cascaded db batch_id u
                          then archived_by_cascade cu (name b) u u' else u' = u) (users db) us'"
    using archive_students_rel [OF loop] by (simp add: cascaded_def [abs_def])
  ultimately show ?thesis by blast
qed

lemma get_put_batch:
  "get_batch db batch_id = Some b \<Longrightarrow> row_id b' = batch_id \<Longrightarrow>
   get_batch (db\<lparr>batches := put_batch b' (batches db), users := us\<rparr>) batch_id = Some b'"
  by (simp add: get_batch_def find_put_batch)

text \<open>
  C2. Archiving a batch that is not archived succeeds: the batch row gets the flag,
  the time, the user and the reason; every enrolled student (a user of role
  \<open>STUDENT\<close>) who is not archived yet is archived with the reason
  \<open>Archived with batch: <name>\<close>; every other user row, the already archived
  students among them, is left as it was; and the reply's \<open>archived_students\<close> is the
  number of such students, which is the number of user rows the call changed.
\<close>

theorem archive_batch_cascade:
  assumes "get_batch db batch_id = Some b" and "\<not> is_archived b"
  shows "\<exists>db' n t r.
      archive_batch utcnow cu db batch_id reason =
        (db', success_response Batch_and_students_archived_successfully
                (Archived_data batch_id (name b) n (Some t) r) 200)
    \<and> r = (case reason of None \<Rightarrow> ''Archived by teacher'' | Some x \<Rightarrow> x)
    \<and> get_batch db' batch_id =
        Some (b\<lparr>is_archived := True, archived_at := Some t, archived_by := Some cu,
                archive_reason := Some r\<rparr>)
    \<and> list_all2 (\<lambda>u u'. if enrolled db batch_id u \<and> \<not> is_archived u \<and> role u = STUDENT
                          then archived_by_cascade cu (name b) u u' else u' = u)
         (users db) (users db')
    \<and> n = length (filter (\<lambda>u. \<not> is_archived u \<and> role u = STUDENT) (batch_students db batch_id))
    \<and> n = length (filter (\<lambda>(u, u'). u' \<noteq> u) (zip (users db) (users db')))"
proof -
  define r where "r = (case reason of None \<Rightarrow> ''Archived by teacher'' | Some x \<Rightarrow> x)"
  define b' where "b' = b\<lparr>is_archived := True, archived_at := Some (utcnow 0),
                          archived_by := Some cu, archive_reason := Some r\<rparr>"
  define n where "n = length (filter (cascaded db batch_id) (users db))"
  from archive_batch_run [OF assms, of utcnow cu reason] obtain us' where
    run: "archive_batch utcnow cu db batch_id reason =
        (db\<lparr>batches := put_batch b' (batches db), users := us'\<rparr>,
         success_response Batch_and_students_archived_successfully
           (Archived_data batch_id (name b) n (Some (utcnow 0)) r) 200)"
    and rel: "list_all2 (\<lambda>u u'. if cascaded db batch_id u
                          then archived_by_cascade cu (name b) u u' else u' = u) (users db) us'"
    unfolding b'_def r_def n_def by blast
  define db' where "db' = db\<lparr>batches := put_batch b' (batches db), users := us'\<rparr>"
  from assms(1) have key: "row_id b = batch_id"
    by (rule get_batch_key)
  have row: "get_batch db' batch_id = Some b'"
    unfolding db'_def using get_put_batch [OF assms(1)] key by (simp add: b'_def)
  have rel': "list_all2 (\<lambda>u u'. if enrolled db batch_id u \<and> \<not> is_archived u \<and> role u = STUDENT
                          then archived_by_cascade cu (name b) u u' else u' = u)
         (users db) (users db')"
    using rel by (simp add: db'_def cascaded_def)
  have cnt: "n = length (filter (\<lambda>u. \<not> is_archived u \<and> role u = STUDENT)
                               (batch_students db batch_id))"
    by (simp add: n_def batch_students_def cascaded_def [abs_def] conj_commute conj_left_commute)
  have "list_all2 (\<lambda>u u'. if cascaded db batch_id u then u' \<noteq> u else u' = u) (users db) (users db')"
    unfolding db'_def using rel
    by (auto elim!: list_all2_mono simp: cascaded_def dest: archived_by_cascade_flag split: if_splits)
  from changed_rows_count [OF this]
  have chg: "n = length (filter (\<lambda>(u, u'). u' \<noteq> u) (zip (users db) (users db')))"
    by (simp add: n_def)
  from run have run': "archive_batch utcnow cu db batch_id reason =
        (db', success_response Batch_and_students_archived_successfully
                (Archived_data batch_id (name b) n (Some (utcnow 0)) r) 200)"
    by (simp add: db'_def)
  from run' row rel' cnt chg show ?thesis
    unfolding b'_def r_def by blast
qed

lemmas sample_simps =
  get_batch_def sample_db_def sample_batch_def archive_batch_def restore_batch_def new_user_def
  enrolled_def cascade_marker_def sample_clock_def Let_def sublist_code roster_db_def
  add_student_to_batch_def

theorem archive_batch_cascade_witness:
  "get_batch sample_db 1 = Some sample_batch \<and> \<not> is_archived sample_batch \<and>
   snd (archive_batch sample_clock 9 sample_db 1 None) =
     success_response Batch_and_students_archived_successfully
       (Archived_data 1 ''Physics A'' 2 (Some 100) ''Archived by teacher'') 200 \<and>
   map is_archived (users (fst (archive_batch sample_clock 9 sample_db 1 None))) =
     [True, True, True, False, False] \<and>
   map archive_reason (users (fst (archive_batch sample_clock 9 sample_db 1 None))) =
     [Some ''Archived with batch: Physics A'', Some ''Left school'',
      Some ''Archived with batch: Physics A'', None, None]"
  using archive_batch_cascade [of sample_db 1 sample_batch sample_clock 9 None]
  by (simp add: sample_simps)

section \<open>The restore cascade\<close>

lemma restore_students_map:
  "restore_students nm member us n =
     (map (\<lambda>u. if member u \<and> role u = STUDENT \<and> is_archived u \<and> carries_marker nm u
                then unarchived u else u) us,
      n + length (filter (\<lambda>u. member u \<and> role u = STUDENT \<and> is_archived u \<and> carries_marker nm u) us))"
proof (induction us arbitrary: n)
  case Nil
  show ?case by simp
next
  case (Cons s ss)
  have marker: "carries_marker nm s \<longleftrightarrow>
      (case archive_reason s of None \<Rightarrow> False | Some r \<Rightarrow> r \<noteq> [] \<and> sublist (cascade_marker nm) r)"
    by (auto simp: carries_marker_def cascade_marker_def split: option.splits)
  show ?case
    unfolding restore_students.simps Cons.IH marker [symmetric]
    by (simp add: unarchived_def)
qed

lemma restore_batch_run:
  assumes "get_batch db batch_id = Some b" and "is_archived b" and "restore_arg \<noteq> Some False"
  shows "restore_batch db batch_id restore_arg =
     (db\<lparr>batches := put_batch (b\<lparr>is_archived := False, archived_at := None, archived_by := None,
                                  archive_reason := None\<rparr>) (batches db),
         users := map (\<lambda>u. if restorable db batch_id (name b) u then unarchived u else u) (users db)\<rparr>,
      success_response Batch_restored_successfully
        (Restored_data batch_id (name b)
           (length (filter (restorable db batch_id (name b)) (users db)))) 200)"
proof -
  from assms(1) have key: "row_id b = batch_id"
    by (rule get_batch_key)
  from assms(3) have flag: "(case restore_arg of None \<Rightarrow> True | Some f \<Rightarrow> f)"
    by (cases restore_arg) auto
  show ?thesis
    using assms(1,2) key flag
    by (simp add: restore_batch_def Let_def restore_students_map restorable_def [abs_def])
qed

lemma roundtrip_users:
  assumes rel: "list_all2 (\<lambda>u u'. if cascaded db batch_id u
                          then archived_by_cascade cu nm u u' else u' = u) us us'"
    and none: "\<forall>u \<in> set us. \<not> restorable db batch_id nm u"
    and same: "user_batches db1 = user_batches db"
  shows "map (\<lambda>u. if restorable db1 batch_id nm u then unarchived u else u) us' =
           map (\<lambda>u. if cascaded db batch_id u then unarchived u else u) us
       \<and> length (filter (restorable db1 batch_id nm) us') = length (filter (cascaded db batch_id) us)"
  using rel none
proof (induction us us' rule: list_all2_induct)
  case Nil
  show ?case by simp
next
  case (Cons u us u' us')
  have enr: "\<And>x. enrolled db1 batch_id x = enrolled db batch_id x"
    by (simp add: enrolled_def same)
  have step: "(if restorable db1 batch_id nm u' then unarchived u' else u') =
              (if cascaded db batch_id u then unarchived u else u)
            \<and> (restorable db1 batch_id nm u' \<longleftrightarrow> cascaded db batch_id u)"
  proof (cases "cascaded db batch_id u")
    case True
    with Cons.hyps(1) obtain t where
      u': "u' = u\<lparr>is_archived := True, archived_at := Some t, archived_by := Some cu,
                  archive_reason := Some (cascade_marker nm)\<rparr>"
      by (auto simp: archived_by_cascade_iff)
    with True have "restorable db1 batch_id nm u'"
      by (simp add: restorable_def cascaded_def enrolled_def same carries_marker_def)
    with True u' show ?thesis
      by (simp add: unarchived_def)
  next
    case False
    with Cons.hyps(1) have "u' = u" by simp
    moreover from Cons.prems have "\<not> restorable db batch_id nm u" by simp
    then have "\<not> restorable db1 batch_id nm u"
      by (simp add: restorable_def enr)
    ultimately show ?thesis using False by simp
  qed
  from Cons.prems have "\<forall>u \<in> set us. \<not> restorable db batch_id nm u" by simp
  with Cons.IH step show ?case by (auto split: if_splits)
qed

text \<open>
  C1, as amended. Restoring an archived batch with \<open>restore_students\<close> true or
  absent clears the batch's archive columns and clears the archive columns of exactly
  the enrolled students (role \<open>STUDENT\<close>) that are archived with a reason containing
  \<open>Archived with batch: <name>\<close> for the batch's current name; every other user row
  stays as it is, and \<open>restored_students\<close> is their number. Archiving a batch that is
  not archived and restoring it right after un-archives exactly the students that
  archive call archived, and reports the same number, provided that no enrolled
  student was archived with a reason containing the marker before the archive call.
\<close>

theorem restore_batch_cascade:
  assumes "get_batch db batch_id = Some b" and "restore_arg \<noteq> Some False"
  shows
   "(is_archived b \<longrightarrow>
       (\<exists>db'. restore_batch db batch_id restore_arg =
                 (db', success_response Batch_restored_successfully
                         (Restored_data batch_id (name b)
                            (length (filter (restorable db batch_id (name b)) (users db)))) 200)
            \<and> get_batch db' batch_id =
                 Some (b\<lparr>is_archived := False, archived_at := None, archived_by := None,
                         archive_reason := None\<rparr>)
            \<and> users db' =
                 map (\<lambda>u. if restorable db batch_id (name b) u then unarchived u else u) (users db)))
  \<and> (\<not> is_archived b \<and> (\<forall>u \<in> set (users db). \<not> restorable db batch_id (name b) u) \<longrightarrow>
       (\<exists>db1 db2 t r.
              archive_batch utcnow cu db batch_id reason =
                 (db1, success_response Batch_and_students_archived_successfully
                         (Archived_data batch_id (name b)
                            (length (filter (cascaded db batch_id) (users db))) (Some t) r) 200)
            \<and> restore_batch db1 batch_id restore_arg =
                 (db2, success_response Batch_restored_successfully
                         (Restored_data batch_id (name b)
                            (length (filter (cascaded db batch_id) (users db)))) 200)
            \<and> users db2 =
                 map (\<lambda>u. if cascaded db batch_id u then unarchived u else u) (users db)
            \<and> get_batch db2 batch_id =
                 Some (b\<lparr>is_archived := False, archived_at := None, archived_by := None,
                         archive_reason := None\<rparr>)))"
proof (intro conjI impI)
  assume arch: "is_archived b"
  from assms(1) have key: "row_id b = batch_id"
    by (rule get_batch_key)
  show "\<exists>db'. restore_batch db batch_id restore_arg =
                 (db', success_response Batch_restored_successfully
                         (Restored_data batch_id (name b)
                            (length (filter (restorable db batch_id (name b)) (users db)))) 200)
            \<and> get_batch db' batch_id =
                 Some (b\<lparr>is_archived := False, archived_at := None, archived_by := None,
                         archive_reason := None\<rparr>)
            \<and> users db' =
                 map (\<lambda>u. if restorable db batch_id (name b) u then unarchived u else u) (users db)"
    using restore_batch_run [OF assms(1) arch assms(2)] get_put_batch [OF assms(1)] key
    by simp
next
  assume pre: "\<not> is_archived b \<and> (\<forall>u \<in> set (users db). \<not> restorable db batch_id (name b) u)"
  from assms(1) have key: "row_id b = batch_id"
    by (rule get_batch_key)
  define r where "r = (case reason of None \<Rightarrow> ''Archived by teacher'' | Some x \<Rightarrow> x)"
  define b1 where "b1 = b\<lparr>is_archived := True, archived_at := Some (utcnow 0),
                          archived_by := Some cu, archive_reason := Some r\<rparr>"
  from pre archive_batch_run [OF assms(1), of utcnow cu reason]
  obtain us1 where
    run1: "archive_batch utcnow cu db batch_id reason =
        (db\<lparr>batches := put_batch b1 (batches db), users := us1\<rparr>,
         success_response Batch_and_students_archived_successfully
           (Archived_data batch_id (name b) (length (filter (cascaded db batch_id) (users db)))
              (Some (utcnow 0)) r) 200)"
    and rel1: "list_all2 (\<lambda>u u'. if cascaded db batch_id u
                          then archived_by_cascade cu (name b) u u' else u' = u) (users db) us1"
    unfolding b1_def r_def by blast
  define db1 where "db1 = db\<lparr>batches := put_batch b1 (batches db), users := us1\<rparr>"
  have row1: "get_batch db1 batch_id = Some b1"
    unfolding db1_def using get_put_batch [OF assms(1)] key by (simp add: b1_def)
  have "is_archived b1" "name b1 = name b" "row_id b1 = batch_id"
    using key by (simp_all add: b1_def)
  note b1 = this
  have same: "user_batches db1 = user_batches db"
    by (simp add: db1_def)
  from roundtrip_users [OF rel1 _ same] pre
  have trip: "map (\<lambda>u. if restorable db1 batch_id (name b) u then unarchived u else u) us1 =
           map (\<lambda>u. if cascaded db batch_id u then unarchived u else u) (users db)"
    and cnt: "length (filter (restorable db1 batch_id (name b)) us1) =
           length (filter (cascaded db batch_id) (users db))"
    by simp_all
  define b2 where "b2 = b\<lparr>is_archived := False, archived_at := None, archived_by := None,
                          archive_reason := None\<rparr>"
  have b12: "b1\<lparr>is_archived := False, archived_at := None, archived_by := None,
                archive_reason := None\<rparr> = b2"
    by (simp add: b1_def b2_def)
  define db2 where "db2 = db1\<lparr>batches := put_batch b2 (batches db1),
       users := map (\<lambda>u. if restorable db1 batch_id (name b) u then unarchived u else u) (users db1)\<rparr>"
  have run2: "restore_batch db1 batch_id restore_arg =
      (db2, success_response Batch_restored_successfully
         (Restored_data batch_id (name b)
            (length (filter (cascaded db batch_id) (users db)))) 200)"
    using restore_batch_run [OF row1 b1(1) assms(2)] cnt
    by (simp add: b1(2) b12 db2_def) (simp add: db1_def)
  have users2: "users db2 = map (\<lambda>u. if cascaded db batch_id u then unarchived u else u) (users db)"
    using trip by (simp add: db2_def db1_def)
  have row2: "get_batch db2 batch_id = Some b2"
    unfolding db2_def using get_put_batch [OF row1, of b2] key by (simp add: b2_def)
  from run1 run2 users2 row2
  show "\<exists>db1 db2 t r.
              archive_batch utcnow cu db batch_id reason =
                 (db1, success_response Batch_and_students_archived_successfully
                         (Archived_data batch_id (name b)
                            (length (filter (cascaded db batch_id) (users db))) (Some t) r) 200)
            \<and> restore_batch db1 batch_id restore_arg =
                 (db2, success_response Batch_restored_successfully
                         (Restored_data batch_id (name b)
                            (length (filter (cascaded db batch_id) (users db)))) 200)
            \<and> users db2 =
                 map (\<lambda>u. if cascaded db batch_id u then unarchived u else u) (users db)
            \<and> get_batch db2 batch_id =
                 Some (b\<lparr>is_archived := False, archived_at := None, archived_by := None,
                         archive_reason := None\<rparr>)"
    unfolding db1_def [symmetric] b2_def by blast
qed

theorem restore_batch_cascade_witness:
  "get_batch sample_db 1 = Some sample_batch \<and> \<not> is_archived sample_batch \<and>
   get_batch (fst (archive_batch sample_clock 9 sample_db 1 None)) 1 =
     Some (sample_batch\<lparr>is_archived := True, archived_at := Some 100, archived_by := Some 9,
             archive_reason := Some ''Archived by teacher''\<rparr>) \<and>
   snd (restore_batch (fst (archive_batch sample_clock 9 sample_db 1 None)) 1 None) =
     success_response Batch_restored_successfully (Restored_data 1 ''Physics A'' 2) 200 \<and>
   map is_archived
     (users (fst (restore_batch (fst (archive_batch sample_clock 9 sample_db 1 None)) 1 None))) =
     [False, True, False, False, False] \<and>
   map archive_reason
     (users (fst (restore_batch (fst (archive_batch sample_clock 9 sample_db 1 None)) 1 None))) =
     [None, Some ''Left school'', None, None, None]"
proof -
  have row: "get_batch sample_db 1 = Some sample_batch"
    by (simp add: sample_simps)
  have flag: "(None :: bool option) \<noteq> Some False"
    by simp
  have pre: "\<not> is_archived sample_batch \<and>
             (\<forall>u \<in> set (users sample_db). \<not> restorable sample_db 1 (name sample_batch) u)"
    by (simp add: sample_simps restorable_def carries_marker_def)
  have cnt: "length (filter (cascaded sample_db 1) (users sample_db)) = 2"
    by (simp add: sample_simps cascaded_def)
  have marks:
    "map is_archived
       (map (\<lambda>u. if cascaded sample_db 1 u then unarchived u else u) (users sample_db)) =
     [False, True, False, False, False]"
    "map archive_reason
       (map (\<lambda>u. if cascaded sample_db 1 u then unarchived u else u) (users sample_db)) =
     [None, Some ''Left school'', None, None, None]"
    by (simp_all add: sample_simps cascaded_def unarchived_def)
  from restore_batch_cascade [OF row flag, of sample_clock 9 None] pre
  obtain db1 db2 t r where
        "archive_batch sample_clock 9 sample_db 1 None =
           (db1, success_response Batch_and_students_archived_successfully
                   (Archived_data 1 (name sample_batch)
                      (length (filter (cascaded sample_db 1) (users sample_db))) (Some t) r) 200)"
    and "restore_batch db1 1 None =
           (db2, success_response Batch_restored_successfully
                   (Restored_data 1 (name sample_batch)
                      (length (filter (cascaded sample_db 1) (users sample_db)))) 200)"
    and "users db2 =
           map (\<lambda>u. if cascaded sample_db 1 u then unarchived u else u) (users sample_db)"
    by blast
  with row pre cnt marks have trip:
    "snd (restore_batch (fst (archive_batch sample_clock 9 sample_db 1 None)) 1 None) =
       success_response Batch_restored_successfully (Restored_data 1 ''Physics A'' 2) 200"
    "map is_archived
       (users (fst (restore_batch (fst (archive_batch sample_clock 9 sample_db 1 None)) 1 None))) =
     [False, True, False, False, False]"
    "map archive_reason
       (users (fst (restore_batch (fst (archive_batch sample_clock 9 sample_db 1 None)) 1 None))) =
     [None, Some ''Left school'', None, None, None]"
    by (simp_all add: sample_batch_def del: map_map)
  have row': "get_batch (fst (archive_batch sample_clock 9 sample_db 1 None)) 1 =
     Some (sample_batch\<lparr>is_archived := True, archived_at := Some 100, archived_by := Some 9,
             archive_reason := Some ''Archived by teacher''\<rparr>)"
    by (simp add: sample_simps)
  have "is_archived (sample_batch\<lparr>is_archived := True, archived_at := Some 100,
          archived_by := Some 9, archive_reason := Some ''Archived by teacher''\<rparr>)"
    by simp
  with restore_batch_cascade [OF row' flag, of sample_clock 9 None]
  have "\<exists>db'. restore_batch (fst (archive_batch sample_clock 9 sample_db 1 None)) 1 None =
           (db', success_response Batch_restored_successfully
              (Restored_data 1 ''Physics A''
                 (length (filter (restorable (fst (archive_batch sample_clock 9 sample_db 1 None)) 1
                                    ''Physics A'')
                            (users (fst (archive_batch sample_clock 9 sample_db 1 None)))))) 200)"
    by (auto simp: sample_batch_def)
  with row pre row' trip show ?thesis
    by simp
qed

theorem restore_batch_roundtrip_counterexample:
  "map is_archived (users second_cycle_db) = [True, False] \<and>
   map (enrolled second_cycle_db 1) (users second_cycle_db) = [True, True] \<and>
   map is_active (users second_cycle_db) = [True, True] \<and>
   get_batch second_cycle_db 1 = Some sample_batch \<and>
   snd (archive_batch sample_clock 9 second_cycle_db 1 None) =
     success_response Batch_and_students_archived_successfully
       (Archived_data 1 ''Physics A'' 1 (Some 100) ''Archived by teacher'') 200 \<and>
   restore_batch (fst (archive_batch sample_clock 9 second_cycle_db 1 None)) 1 (Some True) =
     (roster_db\<lparr>user_batches := [(1, 1), (2, 1)]\<rparr>,
      success_response Batch_restored_successfully (Restored_data 1 ''Physics A'' 2) 200)"
  by (simp add: sample_simps second_cycle_db_def)

section \<open>What archive and restore leave alone\<close>

lemma archive_frame_refl: "archive_frame x x"
  by (simp add: archive_frame_def)

lemma put_batch_frame:
  "archive_frame b b' \<Longrightarrow> find (\<lambda>x. row_id x = k) bs = Some b \<Longrightarrow>
   list_all2 (\<lambda>x x'. if row_id x = k then archive_frame x x' else x' = x) bs (put_batch b' bs)"
proof (induction bs)
  case Nil
  then show ?case by simp
next
  case (Cons x bs)
  have same: "list_all2 (\<lambda>x x'. if row_id x = k then archive_frame x x' else x' = x) bs bs"
    by (simp add: list_all2_same archive_frame_refl)
  have key: "row_id b' = row_id b"
    using Cons.prems(1) by (auto simp: archive_frame_def dest: arg_cong [where f = row_id])
  show ?case
  proof (cases "row_id x = k")
    case True
    with Cons.prems have "x = b" by simp
    with True key Cons.prems(1) same show ?thesis by simp
  next
    case False
    with Cons.prems have "find (\<lambda>x. row_id x = k) bs = Some b" by simp
    then have "row_id b = k" by (auto dest: find_Some_iff [THEN iffD1])
    with False key Cons.IH [OF Cons.prems(1) \<open>find (\<lambda>x. row_id x = k) bs = Some b\<close>]
    show ?thesis by simp
  qed
qed

lemma frame_is_active: "archive_frame x x' \<Longrightarrow> is_active x' = is_active x"
  by (auto simp: archive_frame_def dest: arg_cong [where f = is_active])

lemma frame_list_is_active:
  "list_all2 (\<lambda>x x'. if P x then archive_frame x x' else x' = x) xs xs' \<Longrightarrow>
   map is_active xs' = map is_active xs"
  by (induction xs xs' rule: list_all2_induct) (auto dest: frame_is_active split: if_splits)

lemma frame_same: "only_archive_fields_changed db batch_id db"
  by (simp add: only_archive_fields_changed_def list_all2_same archive_frame_refl)

lemma frame_archive: "only_archive_fields_changed db batch_id (fst (archive_batch utcnow cu db batch_id reason))"
proof (cases "get_batch db batch_id")
  case None
  then show ?thesis by (simp add: archive_batch_def frame_same)
next
  case (Some b)
  show ?thesis
  proof (cases "is_archived b")
    case True
    with Some show ?thesis by (simp add: archive_batch_def frame_same)
  next
    case False
    define b' where "b' = b\<lparr>is_archived := True, archived_at := Some (utcnow 0),
                 archived_by := Some cu,
                 archive_reason := Some (case reason of None \<Rightarrow> ''Archived by teacher'' | Some x \<Rightarrow> x)\<rparr>"
    from archive_batch_run [OF Some False, of utcnow cu reason] obtain us' where
      run: "fst (archive_batch utcnow cu db batch_id reason) =
              db\<lparr>batches := put_batch b' (batches db), users := us'\<rparr>"
      and rel: "list_all2 (\<lambda>u u'. if cascaded db batch_id u
                          then archived_by_cascade cu (name b) u u' else u' = u) (users db) us'"
      unfolding b'_def by auto
    have fb: "archive_frame b b'"
      by (simp add: archive_frame_def b'_def)
    from Some have bs: "list_all2 (\<lambda>x x'. if row_id x = batch_id then archive_frame x x' else x' = x)
        (batches db) (put_batch b' (batches db))"
      unfolding get_batch_def by (rule put_batch_frame [OF fb])
    have us: "list_all2 (\<lambda>u u'. if enrolled db batch_id u \<and> role u = STUDENT
                            then archive_frame u u' else u' = u) (users db) us'"
      by (rule list_all2_mono [OF rel])
         (auto simp: cascaded_def archived_by_cascade_iff archive_frame_def split: if_splits)
    from bs us show ?thesis
      unfolding run only_archive_fields_changed_def
      by (simp add: frame_list_is_active [OF bs] frame_list_is_active [OF us])
  qed
qed

lemma frame_restore: "only_archive_fields_changed db batch_id (fst (restore_batch db batch_id restore_arg))"
proof (cases "get_batch db batch_id")
  case None
  then show ?thesis by (simp add: restore_batch_def frame_same)
next
  case (Some b)
  show ?thesis
  proof (cases "is_archived b")
    case False
    with Some show ?thesis by (simp add: restore_batch_def frame_same)
  next
    case True
    define b' where "b' = b\<lparr>is_archived := False, archived_at := None, archived_by := None,
                            archive_reason := None\<rparr>"
    have fb: "archive_frame b b'"
      by (simp add: archive_frame_def b'_def)
    from Some have bs: "list_all2 (\<lambda>x x'. if row_id x = batch_id then archive_frame x x' else x' = x)
        (batches db) (put_batch b' (batches db))"
      unfolding get_batch_def by (rule put_batch_frame [OF fb])
    show ?thesis
    proof (cases "restore_arg = Some False")
      case True
      with Some \<open>is_archived b\<close> have
        "fst (restore_batch db batch_id restore_arg) = db\<lparr>batches := put_batch b' (batches db)\<rparr>"
        by (simp add: restore_batch_def Let_def b'_def)
      with bs show ?thesis
        unfolding only_archive_fields_changed_def
        by (simp add: frame_list_is_active [OF bs] list_all2_same archive_frame_refl)
    next
      case False
      define us' where
        "us' = map (\<lambda>u. if restorable db batch_id (name b) u then unarchived u else u) (users db)"
      from restore_batch_run [OF Some True False] have
        run: "fst (restore_batch db batch_id restore_arg) =
                db\<lparr>batches := put_batch b' (batches db), users := us'\<rparr>"
        by (simp add: b'_def us'_def)
      have us: "list_all2 (\<lambda>u u'. if enrolled db batch_id u \<and> role u = STUDENT
                            then archive_frame u u' else u' = u) (users db) us'"
        unfolding us'_def
        by (simp add: list_all2_map2 list_all2_same restorable_def unarchived_def archive_frame_def)
      from bs us show ?thesis
        unfolding run only_archive_fields_changed_def
        by (simp add: frame_list_is_active [OF bs] frame_list_is_active [OF us])
    qed
  qed
qed

text \<open>
  C9. Whatever the request, \<open>archive_batch\<close> and \<open>restore_batch\<close> change nothing but
  the four archive columns of the batch and of its enrolled students: every other
  batch row and user row is equal to what it was, the \<open>is_active\<close> flag of every
  batch and user is what it was, and the enrolments, exams and rankings are the same.
\<close>

theorem archive_restore_frame:
  "only_archive_fields_changed db batch_id (fst (archive_batch utcnow cu db batch_id reason)) \<and>
   only_archive_fields_changed db batch_id (fst (restore_batch db batch_id restore_arg))"
  by (simp add: frame_archive frame_restore)


section \<open>Delete\<close>

lemma get_batch_deleted:
  "find (\<lambda>b. row_id b = k) (filter (\<lambda>b. row_id b \<noteq> k) bs) = None"
  by (simp add: find_None_iff)

text \<open>
  C6. For an existing batch: when at least one enrolled user is active, \<open>delete_batch\<close>
  is refused with the number of active enrolled users in its message and the database
  is returned as it was; when none is, it succeeds, and the database it commits has
  no association row of the batch and no batch row with its key, the other tables
  and rows being the same.
\<close>

theorem delete_batch_guard:
  assumes "get_batch db batch_id = Some b"
  shows "(filter is_active (batch_students db batch_id) \<noteq> [] \<longrightarrow>
            delete_batch db batch_id =
              (db, error_response
                     (Cannot_delete_batch_with_active_students
                        (length (filter is_active (batch_students db batch_id)))) 400))
       \<and> (filter is_active (batch_students db batch_id) = [] \<longrightarrow>
            (\<exists>db'. delete_batch db batch_id =
                      (db', success_response (Batch_deleted_permanently (name b)) No_data 200)
                 \<and> get_batch db' batch_id = None
                 \<and> (\<forall>u. \<not> enrolled db' batch_id u)
                 \<and> batches db' = filter (\<lambda>x. row_id x \<noteq> batch_id) (batches db)
                 \<and> user_batches db' = filter (\<lambda>(u, k). k \<noteq> batch_id) (user_batches db)
                 \<and> users db' = users db
                 \<and> monthly_exams db' = monthly_exams db
                 \<and> monthly_rankings db' = monthly_rankings db))"
  using assms
  by (auto simp: delete_batch_def Let_def get_batch_def enrolled_def get_batch_deleted)

theorem delete_batch_guard_witness:
  "get_batch sample_db 1 = Some sample_batch \<and>
   delete_batch sample_db 1 =
     (sample_db, error_response (Cannot_delete_batch_with_active_students 3) 400) \<and>
   get_batch idle_db 1 = Some sample_batch \<and>
   delete_batch idle_db 1 =
     (idle_db\<lparr>batches := [sample_batch\<lparr>row_id := 2, name := ''Chemistry B''\<rparr>],
              user_batches := [(2, 2), (1, 2)]\<rparr>,
      success_response (Batch_deleted_permanently ''Physics A'') No_data 200)"
proof -
  have rows: "get_batch sample_db 1 = Some sample_batch" "get_batch idle_db 1 = Some sample_batch"
    by (simp_all add: sample_simps idle_db_def)
  have active: "filter is_active (batch_students sample_db 1) \<noteq> []"
               "length (filter is_active (batch_students sample_db 1)) = 3"
               "filter is_active (batch_students idle_db 1) = []"
    by (simp_all add: sample_simps idle_db_def batch_students_def)
  have after: "filter (\<lambda>x. row_id x \<noteq> 1) (batches idle_db) =
                 [sample_batch\<lparr>row_id := 2, name := ''Chemistry B''\<rparr>]"
              "filter (\<lambda>(u, k). k \<noteq> 1) (user_batches idle_db) = [(2, 2), (1, 2)]"
    by (simp_all add: sample_simps idle_db_def)
  from delete_batch_guard [OF rows(1)] active
  have one: "delete_batch sample_db 1 =
     (sample_db, error_response (Cannot_delete_batch_with_active_students 3) 400)"
    by simp
  from delete_batch_guard [OF rows(2)] active obtain db' where
    "delete_batch idle_db 1 =
       (db', success_response (Batch_deleted_permanently (name sample_batch)) No_data 200)"
    "batches db' = filter (\<lambda>x. row_id x \<noteq> 1) (batches idle_db)"
    "user_batches db' = filter (\<lambda>(u, k). k \<noteq> 1) (user_batches idle_db)"
    "users db' = users idle_db" "monthly_exams db' = monthly_exams idle_db"
    "monthly_rankings db' = monthly_rankings idle_db"
    by auto
  with after have two: "delete_batch idle_db 1 =
     (idle_db\<lparr>batches := [sample_batch\<lparr>row_id := 2, name := ''Chemistry B''\<rparr>],
              user_batches := [(2, 2), (1, 2)]\<rparr>,
      success_response (Batch_deleted_permanently ''Physics A'') No_data 200)"
    by (simp add: sample_batch_def)
  from rows one two show ?thesis by simp
qed

section \<open>Enrolment\<close>

lemma find_hit:
  "x \<in> set xs \<Longrightarrow> P x \<Longrightarrow> \<exists>y. find P xs = Some y \<and> P y"
  by (induction xs) auto

text \<open>
  C8. In an existing batch, for every user row of role \<open>STUDENT\<close>: if the student is
  active, has a non-zero key and is enrolled, adding the student again is answered
  with the conflict 409 and the database is returned as it was; if the student is not
  enrolled, removing the student is answered with 404 and the database is returned as
  it was.
\<close>

theorem enrolment_guards:
  assumes "get_batch db batch_id = Some b" and "s \<in> set (users db)" and "role s = STUDENT"
  shows "(is_active s \<and> row_id s \<noteq> 0 \<and> enrolled db batch_id s \<longrightarrow>
            add_student_to_batch db batch_id (Some (Some (row_id s))) =
              (db, error_response Student_is_already_enrolled_in_this_batch 409))
       \<and> (\<not> enrolled db batch_id s \<longrightarrow>
            remove_student_from_batch db batch_id (row_id s) =
              (db, error_response Student_is_not_enrolled_in_this_batch 404))"
proof (intro conjI impI)
  assume a: "is_active s \<and> row_id s \<noteq> 0 \<and> enrolled db batch_id s"
  with assms(2,3) obtain y where
    y: "find (\<lambda>u. row_id u = row_id s \<and> role u = STUDENT \<and> is_active u) (users db) = Some y"
       "row_id y = row_id s"
    using find_hit [of s "users db" "\<lambda>u. row_id u = row_id s \<and> role u = STUDENT \<and> is_active u"]
    by auto
  with a have "enrolled db batch_id y"
    by (simp add: enrolled_def)
  with assms(1) a y show "add_student_to_batch db batch_id (Some (Some (row_id s))) =
      (db, error_response Student_is_already_enrolled_in_this_batch 409)"
    by (simp add: add_student_to_batch_def)
next
  assume a: "\<not> enrolled db batch_id s"
  from assms(2,3) obtain y where
    y: "find (\<lambda>u. row_id u = row_id s \<and> role u = STUDENT) (users db) = Some y"
       "row_id y = row_id s"
    using find_hit [of s "users db" "\<lambda>u. row_id u = row_id s \<and> role u = STUDENT"]
    by auto
  with a have "\<not> enrolled db batch_id y"
    by (simp add: enrolled_def)
  with assms(1) y show "remove_student_from_batch db batch_id (row_id s) =
      (db, error_response Student_is_not_enrolled_in_this_batch 404)"
    by (simp add: remove_student_from_batch_def)
qed

theorem enrolment_guards_witness:
  "get_batch sample_db 1 = Some sample_batch \<and>
   new_user 1 ''A'' STUDENT \<in> set (users sample_db) \<and>
   enrolled sample_db 1 (new_user 1 ''A'' STUDENT) \<and>
   add_student_to_batch sample_db 1 (Some (Some 1)) =
     (sample_db, error_response Student_is_already_enrolled_in_this_batch 409) \<and>
   new_user 5 ''E'' STUDENT \<in> set (users sample_db) \<and>
   \<not> enrolled sample_db 1 (new_user 5 ''E'' STUDENT) \<and>
   remove_student_from_batch sample_db 1 5 =
     (sample_db, error_response Student_is_not_enrolled_in_this_batch 404)"
proof -
  have row: "get_batch sample_db 1 = Some sample_batch"
    by (simp add: sample_simps)
  have a: "new_user 1 ''A'' STUDENT \<in> set (users sample_db)" "role (new_user 1 ''A'' STUDENT) = STUDENT"
    "is_active (new_user 1 ''A'' STUDENT) \<and> row_id (new_user 1 ''A'' STUDENT) \<noteq> 0 \<and>
     enrolled sample_db 1 (new_user 1 ''A'' STUDENT)"
    by (simp_all add: sample_simps)
  have e: "new_user 5 ''E'' STUDENT \<in> set (users sample_db)" "role (new_user 5 ''E'' STUDENT) = STUDENT"
    "\<not> enrolled sample_db 1 (new_user 5 ''E'' STUDENT)"
    by (simp_all add: sample_simps)
  have ids: "row_id (new_user 1 ''A'' STUDENT) = 1" "row_id (new_user 5 ''E'' STUDENT) = 5"
    by (simp_all add: new_user_def)
  from enrolment_guards [OF row a(1,2)] a(3) enrolment_guards [OF row e(1,2)] e(3) ids
  have "add_student_to_batch sample_db 1 (Some (Some 1)) =
     (sample_db, error_response Student_is_already_enrolled_in_this_batch 409)"
   "remove_student_from_batch sample_db 1 5 =
     (sample_db, error_response Student_is_not_enrolled_in_this_batch 404)"
    by simp_all
  with row a e show ?thesis by simp
qed


section \<open>The ranked roster\<close>

lemma roster_key_ranked:
  "current_rank s \<noteq> None \<Longrightarrow> current_rank s \<noteq> Some 0 \<Longrightarrow> roster_key s = (False, rank_value s)"
  by (auto simp: roster_key_def rank_value_def)

lemma roster_key_unranked:
  "current_rank s = None \<Longrightarrow> roster_key s = (True, 999999)"
  by (simp add: roster_key_def)

lemma roster_order:
  assumes nz: "\<forall>s \<in> set rows. current_rank s \<noteq> Some 0"
  shows "sort_key roster_key rows =
           sort_key rank_value (filter (\<lambda>s. current_rank s \<noteq> None) rows) @
           filter (\<lambda>s. current_rank s = None) rows"
proof (rule properties_for_sort_key)
  let ?A = "filter (\<lambda>s. current_rank s \<noteq> None) rows"
  let ?B = "filter (\<lambda>s. current_rank s = None) rows"
  have keyA: "\<And>x. x \<in> set ?A \<Longrightarrow> roster_key x = (False, rank_value x)"
    using nz by (auto intro: roster_key_ranked)
  have keyB: "\<And>x. x \<in> set ?B \<Longrightarrow> roster_key x = (True, 999999)"
    by (auto intro: roster_key_unranked)
  show "mset (sort_key rank_value ?A @ ?B) = mset rows"
    by (simp add: multiset_partition [symmetric] add.commute)
  show "sorted (map roster_key (sort_key rank_value ?A @ ?B))"
  proof -
    have "sorted (map rank_value (sort_key rank_value ?A))"
      by simp
    then have "sorted_wrt (\<lambda>x y. rank_value x \<le> rank_value y) (sort_key rank_value ?A)"
      by (simp only: sorted_map)
    then have "sorted_wrt (\<lambda>x y. roster_key x \<le> roster_key y) (sort_key rank_value ?A)"
      by (rule sorted_wrt_mono_rel [rotated]) (simp add: keyA)
    moreover have "sorted_wrt (\<lambda>x y. roster_key x \<le> roster_key y) ?B"
      by (rule sorted_wrt_mono_rel [of _ "\<lambda>x y. True"]) (simp_all add: keyB)
    moreover have "\<forall>x \<in> set (sort_key rank_value ?A). \<forall>y \<in> set ?B. roster_key x \<le> roster_key y"
      using keyA keyB by (simp add: less_bool_def)
    ultimately show ?thesis
      by (simp add: sorted_map sorted_wrt_append)
  qed
  fix k
  assume "k \<in> set (sort_key rank_value ?A @ ?B)"
  then have k: "k \<in> set rows" by auto
  show "filter (\<lambda>x. roster_key k = roster_key x) (sort_key rank_value ?A @ ?B) =
        filter (\<lambda>x. roster_key k = roster_key x) rows"
  proof (cases "current_rank k = None")
    case True
    then have kk: "roster_key k = (True, 999999)"
      by (rule roster_key_unranked)
    have "filter (\<lambda>x. roster_key k = roster_key x) (sort_key rank_value ?A) = []"
      unfolding kk using keyA by (auto simp: filter_empty_conv)
    moreover have "filter (\<lambda>x. roster_key k = roster_key x) ?B =
                   filter (\<lambda>x. roster_key k = roster_key x) rows"
      unfolding kk using nz
      by (auto simp: roster_key_def intro!: filter_cong split: option.splits)
    ultimately show ?thesis by simp
  next
    case False
    with nz k have kk: "roster_key k = (False, rank_value k)"
      by (auto intro: roster_key_ranked)
    have "filter (\<lambda>x. roster_key k = roster_key x) ?B = []"
      unfolding kk using keyB by (auto simp: filter_empty_conv)
    moreover have "filter (\<lambda>x. roster_key k = roster_key x) (sort_key rank_value ?A) =
                   filter (\<lambda>x. rank_value x = rank_value k) (sort_key rank_value ?A)"
      unfolding kk using keyA by (auto intro!: filter_cong)
    moreover have "\<dots> = filter (\<lambda>x. rank_value x = rank_value k) ?A"
      by (rule sort_key_stable)
    moreover have "\<dots> = filter (\<lambda>x. roster_key k = roster_key x) rows"
      unfolding kk using nz
      by (auto simp: roster_key_def rank_value_def intro!: filter_cong split: option.splits)
    ultimately show ?thesis by simp
  qed
qed

lemma filter_head_find: "filter P xs = r # ys \<Longrightarrow> find P xs = Some r"
  by (induction xs) (auto split: if_splits)

lemma find_filter: "find P (filter Q xs) = find (\<lambda>x. Q x \<and> P x) xs"
  by (induction xs) auto

lemma first_row_desc:
  assumes "first_row (order_by_desc key rows) = Some r"
  shows "r \<in> set rows \<and> (\<forall>x \<in> set rows. key x \<le> key r) \<and>
         find (\<lambda>x. key x = key r) rows = Some r"
proof -
  from assms obtain rest where "rev (sort_key key (rev rows)) = r # rest"
    by (auto simp: first_row_def order_by_desc_def split: list.splits)
  then have eq: "sort_key key (rev rows) = rev rest @ [r]"
    by (simp add: rev_swap)
  have "sorted (map key (sort_key key (rev rows)))"
    by simp
  with eq have le: "\<forall>x \<in> set (rev rest). key x \<le> key r"
    by (simp add: sorted_append)
  have sets: "set rows = set (sort_key key (rev rows))"
    by simp
  have "filter (\<lambda>x. key x = key r) (sort_key key (rev rows)) =
        filter (\<lambda>x. key x = key r) (rev rows)"
    by (rule sort_key_stable)
  then have "rev (filter (\<lambda>x. key x = key r) rows) =
             filter (\<lambda>x. key x = key r) (rev rest) @ [r]"
    by (simp add: eq rev_filter)
  then have "filter (\<lambda>x. key x = key r) rows =
             r # rev (filter (\<lambda>x. key x = key r) (rev rest))"
    by (simp add: rev_swap)
  then have "find (\<lambda>x. key x = key r) rows = Some r"
    by (rule filter_head_find)
  with le sets show ?thesis
    unfolding eq by auto
qed

lemma first_row_none:
  "first_row (order_by_desc key rows) = None \<Longrightarrow> rows = []"
  by (cases rows) (auto simp: first_row_def order_by_desc_def split: list.splits
      dest: arg_cong [where f = length])

lemma fill_rank_map_exact:
  "fill_rank_map rs m uid =
     (if filter (\<lambda>r. ranking_user_id r = uid \<and> \<not> falsy_position r) rs = [] then m uid
      else position (last (filter (\<lambda>r. ranking_user_id r = uid \<and> \<not> falsy_position r) rs)))"
  by (induction rs arbitrary: m) (auto simp: falsy_position_def split: option.splits)

lemma rank_map_exact:
  assumes "most_recent_exam db batch_id = Some ex"
  shows "rank_map_of db batch_id uid = final_position db ex uid"
proof -
  have "filter (\<lambda>r. ranking_user_id r = uid \<and> \<not> falsy_position r)
          (filter (\<lambda>r. monthly_exam_id r = exam_id ex \<and> is_final r) (monthly_rankings db)) =
        final_rows db ex uid"
    unfolding final_rows_def filter_filter by (rule filter_cong) auto
  with assms show ?thesis
    by (simp add: rank_map_of_def fill_rank_map_exact final_position_def del: filter_filter)
qed

lemma set_loaded_students:
  "set (loaded_students db batch_id) =
     {u \<in> set (users db). (row_id u, batch_id) \<in> set (user_batches db)}"
  by (auto simp: loaded_students_def)

lemma keyed_rows:
  "distinct (map f xs) \<Longrightarrow>
   map f (filter (\<lambda>x. f x = a) xs) = (if a \<in> f ` set xs then [a] else [])"
proof (induction xs)
  case Nil
  show ?case by simp
next
  case (Cons x xs)
  then have "f x = a \<Longrightarrow> filter (\<lambda>x. f x = a) xs = []"
    by (auto simp: filter_empty_conv)
  with Cons show ?case by auto
qed

lemma loaded_students_order:
  assumes "distinct (map row_id (users db))"
  shows "map row_id (loaded_students db batch_id) =
           filter (\<lambda>uid. uid \<in> row_id ` set (users db))
             (map fst (filter (\<lambda>(uid, b). b = batch_id) (user_batches db)))"
proof -
  have "map row_id (concat (map (\<lambda>(uid, b). filter (\<lambda>u. row_id u = uid) (users db)) rows)) =
        filter (\<lambda>uid. uid \<in> row_id ` set (users db)) (map fst rows)" for rows :: "(int \<times> int) list"
    by (induction rows) (auto simp: keyed_rows [OF assms] filter_empty_conv)
  then show ?thesis
    by (simp add: loaded_students_def)
qed

lemma loaded_students_members:
  "set (loaded_students db batch_id) = set (batch_students db batch_id)"
  by (auto simp: set_loaded_students batch_students_def enrolled_def)

lemma fill_rank_map_source:
  "fill_rank_map rs m uid = Some p \<Longrightarrow>
   m uid = Some p \<or> (\<exists>r \<in> set rs. ranking_user_id r = uid \<and> position r = Some p \<and> p \<noteq> 0)"
proof (induction rs arbitrary: m)
  case Nil
  then show ?case by simp
next
  case (Cons r rs)
  from Cons.IH [OF Cons.prems [simplified]] show ?case
    by (auto split: option.splits if_splits)
qed

lemma rank_map_source:
  assumes "rank_map_of db batch_id uid = Some p"
  shows "\<exists>ex. most_recent_exam db batch_id = Some ex \<and>
           (\<exists>r \<in> set (monthly_rankings db).
               monthly_exam_id r = exam_id ex \<and> is_final r \<and> ranking_user_id r = uid \<and>
               position r = Some p \<and> p \<noteq> 0)"
proof (cases "most_recent_exam db batch_id")
  case None
  with assms show ?thesis by (simp add: rank_map_of_def)
next
  case (Some ex)
  with assms have "fill_rank_map
      (filter (\<lambda>r. monthly_exam_id r = exam_id ex \<and> is_final r) (monthly_rankings db))
      Map.empty uid = Some p"
    by (simp add: rank_map_of_def)
  from fill_rank_map_source [OF this] Some show ?thesis by auto
qed

lemma roster_rows_nonzero: "\<forall>s \<in> set (roster_rows db batch_id). current_rank s \<noteq> Some 0"
  by (auto simp: roster_rows_def student_entry_def dest: rank_map_source)

lemma roster_response:
  assumes "get_batch db batch_id = Some b"
  shows "get_batch_students db batch_id =
           success_response Batch_students_retrieved
             (Students_data
                (sort_key rank_value (filter (\<lambda>s. current_rank s \<noteq> None) (roster_rows db batch_id)) @
                 filter (\<lambda>s. current_rank s = None) (roster_rows db batch_id))) 200"
  using assms roster_order [OF roster_rows_nonzero, of db batch_id]
  by (simp add: get_batch_students_def Let_def roster_rows_def)

text \<open>
  C5. For an existing batch the roster reply lists the entries of the batch's active
  enrolled users, each once for each of its enrolments as the relationship loads
  them: those with a rank first, in ascending rank order, then those without one, in
  the order they were loaded; the list is sorted by the key (has no rank, rank) and
  the entries of equal key keep their loaded order. The entries listed are those of
  exactly the users of the users table that are active and have an association row
  with the batch. The ranks are those of one exam: the first exam in the table among
  the exams of this batch whose (year, month) is the greatest; every user's rank is
  the position of the last final ranking row of that exam for that user whose position
  is neither null nor 0, and absent when there is no such row; without an exam of the
  batch no user has a rank.
\<close>

theorem ranked_roster:
  assumes "get_batch db batch_id = Some b"
  shows "get_batch_students db batch_id =
           success_response Batch_students_retrieved
             (Students_data (ranked_first (roster_rows db batch_id))) 200
       \<and> sorted (map roster_key (ranked_first (roster_rows db batch_id)))
       \<and> (\<forall>k. filter (\<lambda>s. roster_key s = k) (ranked_first (roster_rows db batch_id))
              = filter (\<lambda>s. roster_key s = k) (roster_rows db batch_id))
       \<and> roster_rows db batch_id =
           map (\<lambda>u. \<lparr>sd_id = row_id u, sd_phoneNumber = phoneNumber u, sd_phone = phoneNumber u,
                     sd_first_name = first_name u, sd_last_name = last_name u, sd_email = email u,
                     roll_number = rank_map_of db batch_id (row_id u),
                     current_rank = rank_map_of db batch_id (row_id u)\<rparr>)
             (filter is_active (loaded_students db batch_id))
       \<and> set (loaded_students db batch_id) =
           {u \<in> set (users db). (row_id u, batch_id) \<in> set (user_batches db)}
       \<and> (distinct (map row_id (users db)) \<longrightarrow>
            map row_id (loaded_students db batch_id) =
              filter (\<lambda>uid. uid \<in> row_id ` set (users db))
                (map fst (filter (\<lambda>(uid, b). b = batch_id) (user_batches db))))
       \<and> set (ranked_first (roster_rows db batch_id)) =
           student_entry (rank_map_of db batch_id) `
             {u \<in> set (users db). is_active u \<and> (row_id u, batch_id) \<in> set (user_batches db)}
       \<and> (case most_recent_exam db batch_id of
             None \<Rightarrow> (\<forall>e \<in> set (monthly_exams db). exam_batch_id e \<noteq> batch_id)
                     \<and> (\<forall>uid. rank_map_of db batch_id uid = None)
           | Some ex \<Rightarrow>
               ex \<in> set (monthly_exams db) \<and> exam_batch_id ex = batch_id
             \<and> (\<forall>e \<in> set (monthly_exams db).
                    exam_batch_id e = batch_id \<longrightarrow> (year e, month e) \<le> (year ex, month ex))
             \<and> find (\<lambda>e. exam_batch_id e = batch_id \<and>
                           (year e, month e) = (year ex, month ex)) (monthly_exams db) = Some ex
             \<and> (\<forall>uid. rank_map_of db batch_id uid = final_position db ex uid))"
proof (intro conjI)
  show "get_batch_students db batch_id =
           success_response Batch_students_retrieved
             (Students_data (ranked_first (roster_rows db batch_id))) 200"
    using roster_response [OF assms] by (simp add: ranked_first_def)
  show "sorted (map roster_key (ranked_first (roster_rows db batch_id)))"
    unfolding ranked_first_def roster_order [OF roster_rows_nonzero, symmetric] by simp
  show "\<forall>k. filter (\<lambda>s. roster_key s = k) (ranked_first (roster_rows db batch_id))
              = filter (\<lambda>s. roster_key s = k) (roster_rows db batch_id)"
    unfolding ranked_first_def roster_order [OF roster_rows_nonzero, symmetric]
    by (simp add: sort_key_stable)
  show "roster_rows db batch_id =
           map (\<lambda>u. \<lparr>sd_id = row_id u, sd_phoneNumber = phoneNumber u, sd_phone = phoneNumber u,
                     sd_first_name = first_name u, sd_last_name = last_name u, sd_email = email u,
                     roll_number = rank_map_of db batch_id (row_id u),
                     current_rank = rank_map_of db batch_id (row_id u)\<rparr>)
             (filter is_active (loaded_students db batch_id))"
    by (simp add: roster_rows_def student_entry_def)
  show "distinct (map row_id (users db)) \<longrightarrow>
            map row_id (loaded_students db batch_id) =
              filter (\<lambda>uid. uid \<in> row_id ` set (users db))
                (map fst (filter (\<lambda>(uid, b). b = batch_id) (user_batches db)))"
    by (simp add: loaded_students_order)
  show "set (loaded_students db batch_id) =
           {u \<in> set (users db). (row_id u, batch_id) \<in> set (user_batches db)}"
    by (rule set_loaded_students)
  have "set (ranked_first (roster_rows db batch_id)) = set (roster_rows db batch_id)"
    by (auto simp: ranked_first_def)
  then show "set (ranked_first (roster_rows db batch_id)) =
           student_entry (rank_map_of db batch_id) `
             {u \<in> set (users db). is_active u \<and> (row_id u, batch_id) \<in> set (user_batches db)}"
    by (auto simp: roster_rows_def set_loaded_students)
  show "case most_recent_exam db batch_id of
             None \<Rightarrow> (\<forall>e \<in> set (monthly_exams db). exam_batch_id e \<noteq> batch_id)
                     \<and> (\<forall>uid. rank_map_of db batch_id uid = None)
           | Some ex \<Rightarrow>
               ex \<in> set (monthly_exams db) \<and> exam_batch_id ex = batch_id
             \<and> (\<forall>e \<in> set (monthly_exams db).
                    exam_batch_id e = batch_id \<longrightarrow> (year e, month e) \<le> (year ex, month ex))
             \<and> find (\<lambda>e. exam_batch_id e = batch_id \<and>
                           (year e, month e) = (year ex, month ex)) (monthly_exams db) = Some ex
             \<and> (\<forall>uid. rank_map_of db batch_id uid = final_position db ex uid)"
  proof (cases "most_recent_exam db batch_id")
    case None
    then have "filter (\<lambda>e. exam_batch_id e = batch_id) (monthly_exams db) = []"
      unfolding most_recent_exam_def by (rule first_row_none)
    then have "\<forall>e \<in> set (monthly_exams db). exam_batch_id e \<noteq> batch_id"
      by (simp add: filter_empty_conv)
    moreover from None have "\<forall>uid. rank_map_of db batch_id uid = None"
      by (simp add: rank_map_of_def)
    ultimately show ?thesis using None by simp
  next
    case (Some ex)
    from first_row_desc [OF Some [unfolded most_recent_exam_def]]
    have sel: "ex \<in> set (monthly_exams db)" "exam_batch_id ex = batch_id"
         "\<forall>e \<in> set (monthly_exams db).
              exam_batch_id e = batch_id \<longrightarrow> (year e, month e) \<le> (year ex, month ex)"
         "find (\<lambda>e. exam_batch_id e = batch_id \<and>
                     (year e, month e) = (year ex, month ex)) (monthly_exams db) = Some ex"
      by (auto simp: find_filter)
    have "\<forall>uid. rank_map_of db batch_id uid = final_position db ex uid"
      using rank_map_exact [OF Some] by simp
    with sel Some show ?thesis by simp
  qed
qed

lemmas roster_simps =
  roster_rows_def ranked_db_def abc_db_def wide_db_def sample_batch_def new_user_def
  batch_students_def loaded_students_def enrolled_def student_entry_def rank_map_of_def
  most_recent_exam_def first_row_def order_by_desc_def sort_key_def rank_value_def get_batch_def
  listed_def falsy_position_def ranked_first_def

theorem ranked_roster_witness:
  "get_batch abc_db 1 = Some sample_batch \<and>
   most_recent_exam abc_db 1 = Some \<lparr>exam_id = 11, exam_batch_id = 1, year = 2024, month = 6\<rparr> \<and>
   distinct (map row_id (users abc_db)) \<and>
   map row_id (loaded_students abc_db 1) = [3, 6, 1, 2] \<and>
   map first_name (filter is_active (loaded_students abc_db 1)) = [''C'', ''A'', ''B''] \<and>
   listed (get_batch_students abc_db 1) =
     [(''B'', Some 1, Some 1), (''A'', Some 3, Some 3), (''C'', None, None)] \<and>
   get_batch wide_db 1 = Some sample_batch \<and>
   listed (get_batch_students wide_db 1) =
     [(''B'', Some 1, Some 1), (''A'', Some 3, Some 3), (''G'', Some 12, Some 12),
      (''H'', None, None), (''C'', None, None)]"
proof -
  have row: "get_batch abc_db 1 = Some sample_batch" "get_batch wide_db 1 = Some sample_batch"
    by (simp_all add: roster_simps)
  have exam: "most_recent_exam abc_db 1 =
      Some \<lparr>exam_id = 11, exam_batch_id = 1, year = 2024, month = 6\<rparr>"
    by (simp add: roster_simps)
  have ids: "distinct (map row_id (users abc_db))"
    by (simp add: roster_simps)
  have assoc: "filter (\<lambda>uid. uid \<in> row_id ` set (users abc_db))
                 (map fst (filter (\<lambda>(uid, b). b = 1) (user_batches abc_db))) = [3, 6, 1, 2]"
    by (simp add: roster_simps)
  from ranked_roster [OF row(1)] ids assoc
  have order: "map row_id (loaded_students abc_db 1) = [3, 6, 1, 2]"
    by simp
  have loaded: "map first_name (filter is_active (loaded_students abc_db 1)) = [''C'', ''A'', ''B'']"
    by (simp add: roster_simps)
  have rows: "map (\<lambda>s. (sd_first_name s, roll_number s, current_rank s))
      (ranked_first (roster_rows abc_db 1)) =
     [(''B'', Some 1, Some 1), (''A'', Some 3, Some 3), (''C'', None, None)]"
    "map (\<lambda>s. (sd_first_name s, roll_number s, current_rank s))
      (ranked_first (roster_rows wide_db 1)) =
     [(''B'', Some 1, Some 1), (''A'', Some 3, Some 3), (''G'', Some 12, Some 12),
      (''H'', None, None), (''C'', None, None)]"
    by (simp_all add: roster_simps)
  from ranked_roster [OF row(1)] have "get_batch_students abc_db 1 =
           success_response Batch_students_retrieved
             (Students_data (ranked_first (roster_rows abc_db 1))) 200"
    by (rule conjunct1)
  moreover from ranked_roster [OF row(2)] have "get_batch_students wide_db 1 =
           success_response Batch_students_retrieved
             (Students_data (ranked_first (roster_rows wide_db 1))) 200"
    by (rule conjunct1)
  ultimately have "listed (get_batch_students abc_db 1) =
     [(''B'', Some 1, Some 1), (''A'', Some 3, Some 3), (''C'', None, None)]"
    "listed (get_batch_students wide_db 1) =
     [(''B'', Some 1, Some 1), (''A'', Some 3, Some 3), (''G'', Some 12, Some 12),
      (''H'', None, None), (''C'', None, None)]"
    using rows by (simp_all add: listed_def)
  with row exam ids order loaded show ?thesis by simp
qed

lemma fill_rank_map_none:
  "m uid = None \<Longrightarrow> \<forall>r \<in> set rs. ranking_user_id r = uid \<longrightarrow> falsy_position r \<Longrightarrow>
   fill_rank_map rs m uid = None"
  by (induction rs arbitrary: m) (auto simp: falsy_position_def split: option.splits)

lemma fill_rank_map_skip_filter:
  "fill_rank_map (filter (\<lambda>r. \<not> falsy_position r \<and> Q r) rs) m = fill_rank_map (filter Q rs) m"
  by (induction rs arbitrary: m) (auto simp: falsy_position_def)

lemma rank_map_skip:
  "rank_map_of (db\<lparr>monthly_rankings := filter (\<lambda>r. \<not> falsy_position r) (monthly_rankings db)\<rparr>)
     batch_id = rank_map_of db batch_id"
  by (simp add: rank_map_of_def most_recent_exam_def fill_rank_map_skip_filter
      split: option.splits)

text \<open>
  C10. Ranking rows whose position is null or 0 do not reach the rank map: the roster
  reply is the one the database gives without those rows. A student whose final
  ranking rows of the most recent exam all have such a position has no entry in the
  rank map, and the student's roster entry, with \<open>roll_number\<close> and \<open>current_rank\<close>
  absent, stands in the part of the list after all entries with a rank.
\<close>

theorem falsy_position_unranked:
  assumes "get_batch db batch_id = Some b"
    and "s \<in> set (batch_students db batch_id)" and "is_active s"
    and "most_recent_exam db batch_id = Some ex"
    and "\<forall>r \<in> set (monthly_rankings db).
           ranking_user_id r = row_id s \<and> is_final r \<and> monthly_exam_id r = exam_id ex
           \<longrightarrow> falsy_position r"
  shows "rank_map_of
           (db\<lparr>monthly_rankings := filter (\<lambda>r. \<not> falsy_position r) (monthly_rankings db)\<rparr>) batch_id
         = rank_map_of db batch_id
       \<and> get_batch_students
           (db\<lparr>monthly_rankings := filter (\<lambda>r. \<not> falsy_position r) (monthly_rankings db)\<rparr>) batch_id
         = get_batch_students db batch_id
       \<and> rank_map_of db batch_id (row_id s) = None
       \<and> (\<exists>ranked unranked.
             get_batch_students db batch_id =
               success_response Batch_students_retrieved (Students_data (ranked @ unranked)) 200
           \<and> list_all (\<lambda>x. current_rank x \<noteq> None) ranked
           \<and> list_all (\<lambda>x. current_rank x = None \<and> roll_number x = None) unranked
           \<and> student_entry Map.empty s \<in> set unranked)"
proof (intro conjI)
  show "rank_map_of
           (db\<lparr>monthly_rankings := filter (\<lambda>r. \<not> falsy_position r) (monthly_rankings db)\<rparr>) batch_id
         = rank_map_of db batch_id"
    by (rule rank_map_skip)
  show "get_batch_students
           (db\<lparr>monthly_rankings := filter (\<lambda>r. \<not> falsy_position r) (monthly_rankings db)\<rparr>) batch_id
         = get_batch_students db batch_id"
    using rank_map_skip [of db batch_id]
    by (simp add: get_batch_students_def get_batch_def loaded_students_def Let_def
          split: option.splits)
  have "fill_rank_map
      (filter (\<lambda>r. monthly_exam_id r = exam_id ex \<and> is_final r) (monthly_rankings db))
      Map.empty (row_id s) = None"
    using assms(5) by (intro fill_rank_map_none) auto
  with assms(4) show none: "rank_map_of db batch_id (row_id s) = None"
    by (simp add: rank_map_of_def)
  define rows where "rows = roster_rows db batch_id"
  have entry: "student_entry (rank_map_of db batch_id) s = student_entry Map.empty s"
    using none by (simp add: student_entry_def)
  from assms(2) have "s \<in> set (loaded_students db batch_id)"
    by (simp add: loaded_students_members)
  with assms(3) have "student_entry (rank_map_of db batch_id) s \<in> set rows"
    by (simp add: rows_def roster_rows_def)
  with entry have "student_entry Map.empty s \<in> set (filter (\<lambda>x. current_rank x = None) rows)"
    by (simp add: student_entry_def)
  moreover have "list_all (\<lambda>x. current_rank x \<noteq> None)
      (sort_key rank_value (filter (\<lambda>x. current_rank x \<noteq> None) rows))"
    by (simp add: list_all_iff)
  moreover have "list_all (\<lambda>x. current_rank x = None \<and> roll_number x = None)
      (filter (\<lambda>x. current_rank x = None) rows)"
    by (auto simp: list_all_iff rows_def roster_rows_def student_entry_def)
  ultimately show "\<exists>ranked unranked.
             get_batch_students db batch_id =
               success_response Batch_students_retrieved (Students_data (ranked @ unranked)) 200
           \<and> list_all (\<lambda>x. current_rank x \<noteq> None) ranked
           \<and> list_all (\<lambda>x. current_rank x = None \<and> roll_number x = None) unranked
           \<and> student_entry Map.empty s \<in> set unranked"
    using roster_response [OF assms(1)] unfolding rows_def by blast
qed

theorem falsy_position_unranked_witness:
  "get_batch ranked_db 1 = Some sample_batch \<and>
   new_user 4 ''D'' STUDENT \<in> set (batch_students ranked_db 1) \<and>
   is_active (new_user 4 ''D'' STUDENT) \<and>
   most_recent_exam ranked_db 1 = Some \<lparr>exam_id = 11, exam_batch_id = 1, year = 2024, month = 6\<rparr> \<and>
   \<lparr>monthly_exam_id = 11, ranking_user_id = 4, position = Some 0, is_final = True\<rparr>
      \<in> set (monthly_rankings ranked_db) \<and>
   rank_map_of ranked_db 1 4 = None \<and>
   listed (get_batch_students ranked_db 1) =
     [(''B'', Some 1, Some 1), (''A'', Some 3, Some 3), (''C'', None, None), (''D'', None, None)] \<and>
   get_batch_students
     (ranked_db\<lparr>monthly_rankings := filter (\<lambda>r. \<not> falsy_position r) (monthly_rankings ranked_db)\<rparr>) 1
     = get_batch_students ranked_db 1"
proof -
  have row: "get_batch ranked_db 1 = Some sample_batch"
    by (simp add: roster_simps)
  have d: "new_user 4 ''D'' STUDENT \<in> set (batch_students ranked_db 1)"
          "is_active (new_user 4 ''D'' STUDENT)"
    by (simp_all add: roster_simps)
  have exam: "most_recent_exam ranked_db 1 =
      Some \<lparr>exam_id = 11, exam_batch_id = 1, year = 2024, month = 6\<rparr>"
    by (simp add: roster_simps)
  have zero: "\<forall>r \<in> set (monthly_rankings ranked_db).
           ranking_user_id r = row_id (new_user 4 ''D'' STUDENT) \<and> is_final r \<and>
           monthly_exam_id r = exam_id \<lparr>exam_id = 11, exam_batch_id = 1, year = 2024, month = 6\<rparr>
           \<longrightarrow> falsy_position r"
    by (simp add: ranked_db_def new_user_def falsy_position_def)
  have mem: "\<lparr>monthly_exam_id = 11, ranking_user_id = 4, position = Some 0, is_final = True\<rparr>
      \<in> set (monthly_rankings ranked_db)"
    by (simp add: ranked_db_def)
  have out: "listed (get_batch_students ranked_db 1) =
     [(''B'', Some 1, Some 1), (''A'', Some 3, Some 3), (''C'', None, None), (''D'', None, None)]"
    by (simp add: roster_simps get_batch_students_def roster_key_def)
  from falsy_position_unranked [OF row d exam zero]
  have "get_batch_students
     (ranked_db\<lparr>monthly_rankings := filter (\<lambda>r. \<not> falsy_position r) (monthly_rankings ranked_db)\<rparr>) 1
     = get_batch_students ranked_db 1"
    and "rank_map_of ranked_db 1 4 = None"
    by (simp_all add: new_user_def)
  with row d exam mem out show ?thesis by simp
qed


section \<open>Update\<close>

lemma name_conflict_reply:
  "name_conflict db b batch_id data = Some r \<Longrightarrow>
   r = error_response Batch_with_this_name_already_exists 409 \<or> r = raised ''update batch''"
  by (auto simp: name_conflict_def split: option.splits json.splits if_splits)

lemma update_class_subject_reply:
  "update_class_subject data b = Inl r \<Longrightarrow>
     r = raised ''update batch'' \<or> r = error_response (Class_must_be_one_of allowed_classes) 400 \<or>
     r = error_response (Subject_must_be_one_of allowed_subjects) 400"
  by (auto simp: update_class_subject_def Let_def split: option.splits if_splits)

lemma update_class_subject_keeps:
  "update_class_subject data b = Inr b' \<Longrightarrow> same_dates_and_fee b b'"
  by (auto simp: update_class_subject_def Let_def same_dates_and_fee_def
      split: option.splits if_splits)

lemma update_field_name:
  "update_field P D data b ''name'' =
     (case map_of data ''name'' of
        None \<Rightarrow> Inr b
      | Some (JStr s) \<Rightarrow> Inr (b\<lparr>name := s\<rparr>)
      | Some _ \<Rightarrow> Inl (raised ''update batch''))"
  by (auto simp: update_field_def set_or_raise_def split: option.splits json.splits)

lemma update_fields_name:
  "update_fields P D data updatable_fields b =
     (case map_of data ''name'' of
        None \<Rightarrow> Inr b
      | Some (JStr s) \<Rightarrow> Inr (b\<lparr>name := s\<rparr>)
      | Some _ \<Rightarrow> Inl (raised ''update batch''))"
  by (simp add: updatable_fields_def update_field_name split: option.splits json.splits)

lemma update_batch_cases:
  assumes "get_batch db batch_id = Some b"
  shows "(\<exists>m st. update_batch P D uq now db batch_id body = (db, error_response m st) \<and>
                  m \<in> update_errors \<and>
                  (m = End_date_must_be_after_start_date \<longrightarrow>
                     (\<exists>e. end_date b = Some e \<and> e \<le> start_date b)))
       \<or> (\<exists>b'. update_batch P D uq now db batch_id body =
                  (db\<lparr>batches := put_batch b' (batches db)\<rparr>,
                   success_response Batch_updated_successfully (Batch_data b' None) 200)
              \<and> get_batch (db\<lparr>batches := put_batch b' (batches db)\<rparr>) batch_id = Some b'
              \<and> same_dates_and_fee b b' \<and> updated_at b' = Some now
              \<and> (case end_date b of None \<Rightarrow> True | Some e \<Rightarrow> start_date b < e))"
proof (cases body)
  case None
  with assms show ?thesis by (simp add: update_batch_def update_errors_def)
next
  case (Some data)
  show ?thesis
  proof (cases "data = []")
    case True
    with assms Some show ?thesis by (simp add: update_batch_def update_errors_def)
  next
    case False
    note nonempty = this
    show ?thesis
    proof (cases "name_conflict db b batch_id data")
      case (Some r)
      from name_conflict_reply [OF this] Some assms \<open>body = Some data\<close> nonempty
      show ?thesis
        by (auto simp: update_batch_def update_errors_def raised_def)
    next
      case None
      note no_conflict = this
      show ?thesis
      proof (cases "update_class_subject data b")
        case (Inl r)
        from update_class_subject_reply [OF this] Inl assms \<open>body = Some data\<close> nonempty no_conflict
        show ?thesis
          by (auto simp: update_batch_def update_errors_def raised_def)
      next
        case (Inr b1)
        note cs = this
        from update_class_subject_keeps [OF this] have k1: "same_dates_and_fee b b1" .
        show ?thesis
        proof (cases "update_fields P D data updatable_fields b1")
          case (Inl r)
          then have "r = raised ''update batch''"
            by (auto simp: update_fields_name split: option.splits json.splits)
          with Inl assms \<open>body = Some data\<close> nonempty no_conflict cs show ?thesis
            by (auto simp: update_batch_def update_errors_def raised_def)
        next
          case (Inr b2)
          then have k2: "same_dates_and_fee b b2"
            using k1 by (auto simp: update_fields_name same_dates_and_fee_def
                split: option.splits json.splits)
          show ?thesis
          proof (cases "case end_date b2 of None \<Rightarrow> False | Some e \<Rightarrow> e \<le> start_date b2")
            case True
            then have "\<exists>e. end_date b = Some e \<and> e \<le> start_date b"
              using k2 by (auto simp: same_dates_and_fee_def split: option.splits)
            with True Inr assms \<open>body = Some data\<close> nonempty no_conflict cs show ?thesis
              by (auto simp: update_batch_def update_errors_def)
          next
            case False
            then have ok: "case end_date b of None \<Rightarrow> True | Some e \<Rightarrow> start_date b < e"
              using k2 by (auto simp: same_dates_and_fee_def split: option.splits)
            have k3: "same_dates_and_fee b (b2\<lparr>updated_at := Some now\<rparr>)"
              using k2 by (simp add: same_dates_and_fee_def)
            show ?thesis
            proof (cases "commit_batches uq db (put_batch (b2\<lparr>updated_at := Some now\<rparr>) (batches db))")
              case None
              with False Inr assms \<open>body = Some data\<close> nonempty no_conflict cs show ?thesis
                by (auto simp: update_batch_def update_errors_def raised_def Let_def)
            next
              case (Some db')
              then have "db' = db\<lparr>batches := put_batch (b2\<lparr>updated_at := Some now\<rparr>) (batches db)\<rparr>"
                by (auto simp: commit_batches_def split: if_splits)
              moreover have "get_batch (db\<lparr>batches := put_batch (b2\<lparr>updated_at := Some now\<rparr>)
                                (batches db)\<rparr>) batch_id = Some (b2\<lparr>updated_at := Some now\<rparr>)"
                using assms k3 get_batch_key [OF assms]
                by (simp add: get_batch_def find_put_batch same_dates_and_fee_def)
              ultimately show ?thesis
                using Some False Inr assms \<open>body = Some data\<close> nonempty no_conflict cs k3 ok
                by (auto simp: update_batch_def Let_def)
            qed
          qed
        qed
      qed
    qed
  qed
qed

lemma name_conflict_cong:
  "map_of d1 ''name'' = map_of d2 ''name'' \<Longrightarrow>
   name_conflict db b batch_id d1 = name_conflict db b batch_id d2"
  by (simp add: name_conflict_def)

lemma update_class_subject_cong:
  assumes "map_of d1 ''class'' = map_of d2 ''class''"
    and "map_of d1 ''subject'' = map_of d2 ''subject''"
  shows "update_class_subject d1 b = update_class_subject d2 b"
  unfolding update_class_subject_def assms by (rule refl)

lemma update_fields_cong:
  "map_of d1 ''name'' = map_of d2 ''name'' \<Longrightarrow>
   update_fields P D d1 updatable_fields b = update_fields P' D' d2 updatable_fields b"
  by (simp add: update_fields_name)

lemma update_batch_cong:
  assumes "d1 \<noteq> []" and "d2 \<noteq> []"
    and "map_of d1 ''name'' = map_of d2 ''name''"
    and "map_of d1 ''class'' = map_of d2 ''class''"
    and "map_of d1 ''subject'' = map_of d2 ''subject''"
  shows "update_batch P D uq now db batch_id (Some d1) = update_batch P' D' uq now db batch_id (Some d2)"
  unfolding update_batch_def
  using assms(1,2) name_conflict_cong [OF assms(3)] update_class_subject_cong [OF assms(4,5)]
    update_fields_cong [OF assms(3), of P D _ P' D']
  by (simp split: option.splits sum.splits)

lemmas update_simps =
  update_batch_def name_conflict_def update_class_subject_def update_fields_name
  commit_batches_def get_batch_def sample_db_def sample_batch_def new_user_def idle_db_def
  stale_db_def stale_batch_def once_renamed_db_def twice_renamed_db_def sample_strptime_def
  sample_decimal_def strip_def is_space_def Let_def raised_def

text \<open>
  C3, as amended. The update handler does not read \<open>end_date\<close> from the request; its
  date check is on the stored dates. For an existing batch: the reply
  \<open>End date must be after start date\<close> is given only when the stored end date is set
  and not after the stored start date; with such stored dates every update is refused;
  a refused update returns the database as it was; and an accepted update leaves the
  stored start and end date as they were.
\<close>

theorem update_batch_date_check:
  assumes "get_batch db batch_id = Some b"
  shows "(snd (update_batch P D uq now db batch_id body) =
            error_response End_date_must_be_after_start_date 400
          \<longrightarrow> (\<exists>e. end_date b = Some e \<and> e \<le> start_date b))
       \<and> ((\<exists>e. end_date b = Some e \<and> e \<le> start_date b)
          \<longrightarrow> (\<exists>m st. update_batch P D uq now db batch_id body = (db, error_response m st)))
       \<and> (case snd (update_batch P D uq now db batch_id body) of
             error_response m st \<Rightarrow> fst (update_batch P D uq now db batch_id body) = db
           | success_response m p st \<Rightarrow>
               (\<exists>b'. get_batch (fst (update_batch P D uq now db batch_id body)) batch_id = Some b'
                   \<and> start_date b' = start_date b \<and> end_date b' = end_date b))"
  using update_batch_cases [OF assms, of P D uq now body]
  by (auto simp: same_dates_and_fee_def split: option.splits)

theorem update_batch_date_check_witness:
  "get_batch stale_db 1 = Some stale_batch \<and>
   end_date stale_batch = Some 737000 \<and> start_date stale_batch = 738000 \<and>
   update_batch sample_strptime sample_decimal True 500 stale_db 1
       (Some [(''name'', JStr ''Physics B'')]) =
     (stale_db, error_response End_date_must_be_after_start_date 400) \<and>
   get_batch sample_db 1 = Some sample_batch \<and>
   snd (update_batch sample_strptime sample_decimal True 500 sample_db 1
       (Some [(''end_date'', JStr ''2020-01-01'')])) =
     success_response Batch_updated_successfully
       (Batch_data (sample_batch\<lparr>updated_at := Some 500\<rparr>) None) 200"
proof -
  have rows: "get_batch stale_db 1 = Some stale_batch" "get_batch sample_db 1 = Some sample_batch"
    by (simp_all add: update_simps)
  have dates: "end_date stale_batch = Some 737000" "start_date stale_batch = 738000"
    by (simp_all add: update_simps)
  have runs:
    "update_batch sample_strptime sample_decimal True 500 stale_db 1
       (Some [(''name'', JStr ''Physics B'')]) =
     (stale_db, error_response End_date_must_be_after_start_date 400)"
    "snd (update_batch sample_strptime sample_decimal True 500 sample_db 1
       (Some [(''end_date'', JStr ''2020-01-01'')])) =
     success_response Batch_updated_successfully
       (Batch_data (sample_batch\<lparr>updated_at := Some 500\<rparr>) None) 200"
    by (simp_all add: update_simps)
  from update_batch_date_check [OF rows(1), of sample_strptime sample_decimal True 500
      "Some [(''name'', JStr ''Physics B'')]"]
    update_batch_date_check [OF rows(2), of sample_strptime sample_decimal True 500
      "Some [(''end_date'', JStr ''2020-01-01'')]"]
    rows dates runs
  show ?thesis by simp
qed

theorem update_end_date_counterexample:
  "get_batch sample_db 1 = Some sample_batch \<and>
   start_date sample_batch = 738000 \<and> end_date sample_batch = None \<and>
   sample_strptime (JStr ''2020-01-01'') = Inr 737425 \<and>
   update_batch sample_strptime sample_decimal True 500 sample_db 1
       (Some [(''end_date'', JStr ''2020-01-01'')]) =
     (sample_db\<lparr>batches := [sample_batch\<lparr>updated_at := Some 500\<rparr>]\<rparr>,
      success_response Batch_updated_successfully
        (Batch_data (sample_batch\<lparr>updated_at := Some 500\<rparr>) None) 200)"
  by (simp add: update_simps)

text \<open>
  C4, as amended. An update applies \<open>name\<close>, \<open>class\<close> and \<open>subject\<close> only. The keys
  \<open>start_date\<close>, \<open>end_date\<close> and \<open>fee_amount\<close> of a request are ignored: adding one
  of them, with any value, to a non-empty request changes neither the reply nor the
  database, whatever the date and decimal parsers do; no update is answered with a
  date-format or fee error; and an accepted update leaves the stored key, dates and
  fee of the batch as they were.
\<close>

theorem update_batch_ignores_dates_and_fee:
  shows "(data \<noteq> [] \<and> date_or_fee_key k \<longrightarrow>
            update_batch P D uq now db batch_id (Some ((k, v) # data)) =
            update_batch P' D' uq now db batch_id (Some data))
       \<and> snd (update_batch P D uq now db batch_id body) \<noteq>
            error_response (Invalid_format_Use_YYYY_MM_DD k) 400
       \<and> snd (update_batch P D uq now db batch_id body) \<noteq>
            error_response Fee_amount_cannot_be_negative 400
       \<and> snd (update_batch P D uq now db batch_id body) \<noteq> error_response Invalid_fee_amount 400
       \<and> (case get_batch db batch_id of
             None \<Rightarrow> True
           | Some b \<Rightarrow>
               (case snd (update_batch P D uq now db batch_id body) of
                  error_response m st \<Rightarrow> True
                | success_response m p st \<Rightarrow>
                    (\<exists>b'. get_batch (fst (update_batch P D uq now db batch_id body)) batch_id = Some b'
                        \<and> same_dates_and_fee b b')))"
proof -
  have indep: "data \<noteq> [] \<and> date_or_fee_key k \<longrightarrow>
            update_batch P D uq now db batch_id (Some ((k, v) # data)) =
            update_batch P' D' uq now db batch_id (Some data)"
    by (auto simp: date_or_fee_key_def intro!: update_batch_cong)
  have replies: "snd (update_batch P D uq now db batch_id body) \<noteq>
            error_response (Invalid_format_Use_YYYY_MM_DD k) 400
       \<and> snd (update_batch P D uq now db batch_id body) \<noteq>
            error_response Fee_amount_cannot_be_negative 400
       \<and> snd (update_batch P D uq now db batch_id body) \<noteq> error_response Invalid_fee_amount 400"
  proof (cases "get_batch db batch_id")
    case None
    then show ?thesis by (simp add: update_batch_def)
  next
    case (Some b)
    from update_batch_cases [OF this, of P D uq now body] show ?thesis
      by (auto simp: update_errors_def)
  qed
  have kept: "case get_batch db batch_id of
             None \<Rightarrow> True
           | Some b \<Rightarrow>
               (case snd (update_batch P D uq now db batch_id body) of
                  error_response m st \<Rightarrow> True
                | success_response m p st \<Rightarrow>
                    (\<exists>b'. get_batch (fst (update_batch P D uq now db batch_id body)) batch_id = Some b'
                        \<and> same_dates_and_fee b b'))"
  proof (cases "get_batch db batch_id")
    case None
    then show ?thesis by simp
  next
    case (Some b)
    from update_batch_cases [OF this, of P D uq now body] Some show ?thesis
      by auto
  qed
  from indep replies kept show ?thesis by blast
qed

theorem update_batch_ignores_dates_and_fee_witness:
  "[(''name'', JStr ''Physics B'')] \<noteq> [] \<and> date_or_fee_key ''start_date'' \<and>
   get_batch sample_db 1 = Some sample_batch \<and>
   update_batch sample_strptime sample_decimal True 500 sample_db 1
       (Some [(''start_date'', JStr ''garbage''), (''name'', JStr ''Physics B'')]) =
     (sample_db\<lparr>batches := [sample_batch\<lparr>name := ''Physics B'', updated_at := Some 500\<rparr>]\<rparr>,
      success_response Batch_updated_successfully
        (Batch_data (sample_batch\<lparr>name := ''Physics B'', updated_at := Some 500\<rparr>) None) 200)"
proof -
  have pre: "[(''name'', JStr ''Physics B'')] \<noteq> [] \<and> date_or_fee_key ''start_date''"
    by (simp add: date_or_fee_key_def)
  have row: "get_batch sample_db 1 = Some sample_batch"
    by (simp add: update_simps)
  have run: "update_batch sample_strptime sample_decimal True 500 sample_db 1
       (Some [(''name'', JStr ''Physics B'')]) =
     (sample_db\<lparr>batches := [sample_batch\<lparr>name := ''Physics B'', updated_at := Some 500\<rparr>]\<rparr>,
      success_response Batch_updated_successfully
        (Batch_data (sample_batch\<lparr>name := ''Physics B'', updated_at := Some 500\<rparr>) None) 200)"
    by (simp add: update_simps)
  from update_batch_ignores_dates_and_fee
         [of "[(''name'', JStr ''Physics B'')]" "''start_date''" sample_strptime sample_decimal
             True 500 sample_db 1 "JStr ''garbage''" sample_strptime sample_decimal None]
       pre
  have "update_batch sample_strptime sample_decimal True 500 sample_db 1
          (Some [(''start_date'', JStr ''garbage''), (''name'', JStr ''Physics B'')]) =
        update_batch sample_strptime sample_decimal True 500 sample_db 1
          (Some [(''name'', JStr ''Physics B'')])"
    by blast
  with pre row run show ?thesis by simp
qed

theorem update_dates_and_fee_counterexample:
  "sample_strptime (JStr ''garbage'') = Inl ValueError \<and>
   sample_strptime (JStr ''2020-01-01'') = Inr 737425 \<and>
   sample_decimal (JInt (- 5)) = Inr (- 5) \<and>
   update_batch sample_strptime sample_decimal True 500 sample_db 1
       (Some [(''start_date'', JStr ''garbage''), (''fee_amount'', JInt (- 5))]) =
     (sample_db\<lparr>batches := [sample_batch\<lparr>updated_at := Some 500\<rparr>]\<rparr>,
      success_response Batch_updated_successfully
        (Batch_data (sample_batch\<lparr>updated_at := Some 500\<rparr>) None) 200) \<and>
   update_batch sample_strptime sample_decimal True 500 sample_db 1
       (Some [(''start_date'', JStr ''2020-01-01''), (''fee_amount'', JInt 120)]) =
     (sample_db\<lparr>batches := [sample_batch\<lparr>updated_at := Some 500\<rparr>]\<rparr>,
      success_response Batch_updated_successfully
        (Batch_data (sample_batch\<lparr>updated_at := Some 500\<rparr>) None) 200) \<and>
   start_date (sample_batch\<lparr>updated_at := Some 500\<rparr>) = 738000 \<and>
   fee_amount (sample_batch\<lparr>updated_at := Some 500\<rparr>) = 0"
  by (simp add: update_simps)

section \<open>Unique names\<close>

lemma create_batch_conflict:
  assumes "map_of data ''name'' = Some (JStr nm)" and "nm \<noteq> []"
    and "map_of data ''class'' = Some (JStr c)" and "c \<noteq> []" and "strip c \<in> set allowed_classes"
    and "map_of data ''subject'' = Some (JStr sj)" and "sj \<noteq> []"
    and "strip sj \<in> set allowed_subjects"
    and "x \<in> set (batches db)" and "name x = strip nm"
  shows "create_batch uq blank today db (Some data) =
           (db, error_response Batch_with_this_name_already_exists 409)"
proof -
  from assms(1) have "data \<noteq> []" by auto
  moreover from assms(9,10) have "find (\<lambda>b. name b = strip nm) (batches db) \<noteq> None"
    by (auto simp: find_None_iff)
  ultimately show ?thesis
    using assms(1-8) by (simp add: create_batch_def Let_def)
qed

lemma update_batch_conflict:
  assumes "get_batch db batch_id = Some b" and "map_of data ''name'' = Some (JStr nm)"
    and "strip nm \<noteq> name b"
    and "x \<in> set (batches db)" and "name x = strip nm" and "row_id x \<noteq> batch_id"
  shows "update_batch P D uq now db batch_id (Some data) =
           (db, error_response Batch_with_this_name_already_exists 409)"
proof -
  from assms(2) have "data \<noteq> []" by auto
  moreover from assms(4-6) have
    "find (\<lambda>b. name b = strip nm \<and> row_id b \<noteq> batch_id) (batches db) \<noteq> None"
    by (auto simp: find_None_iff)
  ultimately show ?thesis
    using assms(1-3) by (simp add: update_batch_def name_conflict_def)
qed

text \<open>
  C7, on the input where the code departs from it. \<open>update_batch\<close> compares the
  trimmed name with the stored names and then stores the name as sent. Renaming the
  first batch to a name with a leading space is accepted; renaming the second batch
  to the same string is not answered with the conflict 409: without a unique
  constraint in the schema it is accepted and two batches carry one name, with the
  constraint the commit raises and the reply is 500.
\<close>

theorem rename_to_untrimmed_name:
  "update_batch P D uq 500 idle_db 1 (Some [(''name'', JStr '' Biology C'')]) =
     (once_renamed_db,
      success_response Batch_updated_successfully
        (Batch_data (sample_batch\<lparr>name := '' Biology C'', updated_at := Some 500\<rparr>) None) 200) \<and>
   update_batch P D False 600 once_renamed_db 2 (Some [(''name'', JStr '' Biology C'')]) =
     (twice_renamed_db,
      success_response Batch_updated_successfully
        (Batch_data (sample_batch\<lparr>row_id := 2, name := '' Biology C'', updated_at := Some 600\<rparr>)
           None) 200) \<and>
   map name (batches twice_renamed_db) = ['' Biology C'', '' Biology C''] \<and>
   update_batch P D True 600 once_renamed_db 2 (Some [(''name'', JStr '' Biology C'')]) =
     (once_renamed_db, error_response (Failed_to ''update batch'') 500)"
  by (simp add: update_simps)


end
